theory Spec2Isabelle
  imports Complex_Main
begin

section \<open>JavaScript values used by the handlers\<close>

text \<open>
  A TypeScript \<open>number\<close> is an IEEE double. The model keeps the three special values
  apart from the finite ones and carries a finite value as an exact rational. Every
  comparison and every special-value rule is modelled. \<open>js_add\<close>, \<open>js_sub\<close> and
  \<open>js_mul\<close> give the exact result of a finite operation, without the rounding to a
  double; \<open>add64\<close> and \<open>sub64\<close>, further down, round it. \<open>-0\<close> and \<open>+0\<close> are the same
  value here; JavaScript compares them equal and both are falsy.
\<close>

datatype number = Num rat | PosInf | NegInf | NaN


text \<open>\<open>a < b\<close> on numbers: false as soon as one side is \<open>NaN\<close>.\<close>

fun js_lt :: "number \<Rightarrow> number \<Rightarrow> bool" where
  "js_lt NaN b = False"
| "js_lt a NaN = False"
| "js_lt (Num a) (Num b) = (a < b)"
| "js_lt (Num a) PosInf = True"
| "js_lt (Num a) NegInf = False"
| "js_lt PosInf b = False"
| "js_lt NegInf NegInf = False"
| "js_lt NegInf b = True"

text \<open>\<open>a <= b\<close>, \<open>a > b\<close>, \<open>a >= b\<close>.\<close>

fun js_le :: "number \<Rightarrow> number \<Rightarrow> bool" where
  "js_le NaN b = False"
| "js_le a NaN = False"
| "js_le a b = (a = b \<or> js_lt a b)"

definition js_gt :: "number \<Rightarrow> number \<Rightarrow> bool" where
  "js_gt a b = js_lt b a"

definition js_ge :: "number \<Rightarrow> number \<Rightarrow> bool" where
  "js_ge a b = js_le b a"

text \<open>\<open>a + b\<close>, \<open>-a\<close>, \<open>a - b\<close> and \<open>a * b\<close>.\<close>

fun js_add :: "number \<Rightarrow> number \<Rightarrow> number" where
  "js_add NaN b = NaN"
| "js_add a NaN = NaN"
| "js_add (Num a) (Num b) = Num (a + b)"
| "js_add PosInf NegInf = NaN"
| "js_add NegInf PosInf = NaN"
| "js_add PosInf b = PosInf"
| "js_add NegInf b = NegInf"
| "js_add (Num a) b = b"

fun js_neg :: "number \<Rightarrow> number" where
  "js_neg (Num a) = Num (- a)"
| "js_neg PosInf = NegInf"
| "js_neg NegInf = PosInf"
| "js_neg NaN = NaN"

definition js_sub :: "number \<Rightarrow> number \<Rightarrow> number" where
  "js_sub a b = js_add a (js_neg b)"

fun js_sign :: "number \<Rightarrow> int" where
  "js_sign (Num a) = (if a < 0 then - 1 else if a = 0 then 0 else 1)"
| "js_sign PosInf = 1"
| "js_sign NegInf = - 1"
| "js_sign NaN = 0"

fun js_mul :: "number \<Rightarrow> number \<Rightarrow> number" where
  "js_mul NaN b = NaN"
| "js_mul a NaN = NaN"
| "js_mul (Num a) (Num b) = Num (a * b)"
| "js_mul a b =
     (if js_sign a * js_sign b = 0 then NaN
      else if js_sign a * js_sign b < 0 then NegInf else PosInf)"

text \<open>Truthiness of a number, as \<open>||\<close> and \<open>&&\<close> test it: \<open>0\<close> and \<open>NaN\<close> are falsy.\<close>

fun truthy_number :: "number \<Rightarrow> bool" where
  "truthy_number (Num a) = (a \<noteq> 0)"
| "truthy_number PosInf = True"
| "truthy_number NegInf = True"
| "truthy_number NaN = False"

text \<open>\<open>Math.min(a, b)\<close>: \<open>NaN\<close> if either argument is.\<close>

fun Math_min :: "number \<Rightarrow> number \<Rightarrow> number" where
  "Math_min NaN b = NaN"
| "Math_min a NaN = NaN"
| "Math_min a b = (if js_lt b a then b else a)"

text \<open>
  A \<open>Date\<close> that is valid is its time value, the milliseconds since the epoch; an
  invalid one has no time value. Comparing two valid dates with \<open><=\<close> or \<open>>\<close> compares
  the time values.
\<close>

type_synonym date = int

section \<open>The declared types (types/transaction.ts)\<close>

datatype TransactionStatus = draft | posted | voided

record Transaction =
  id' :: string
  residentId :: string
  contractId :: string
  occurredAt :: date
  serviceCode :: string
  description :: "string option"
  quantity :: number
  unitPrice :: number
  amount :: number
  status :: TransactionStatus
  note' :: "string option"
  createdAt :: date
  createdBy :: string
  postedAt :: "date option"
  postedBy :: "string option"
  voidedAt :: "date option"
  voidedBy :: "string option"
  voidReason :: "string option"

record TransactionCreateInput =
  residentId :: string
  contractId :: string
  occurredAt :: date
  serviceCode :: string
  description :: "string option"
  quantity :: number
  unitPrice :: number
  amount :: "number option"
  note' :: "string option"

record TransactionFilters =
  dateRange :: "(date \<times> date) option"
  residentIds :: "string list option"
  contractIds :: "string list option"
  houseIds :: "string list option"
  statuses :: "string list option"
  serviceCode :: "string option"
  search :: "string option"

record TransactionSortConfig =
  field :: string
  direction :: string

record TransactionBalancePreview =
  currentBalance :: number
  transactionAmount :: number
  remainingAfterPost :: number
  canPost :: bool
  warningMessage :: "string option"

definition COMMON_SERVICE_CODES :: "string list" where
  "COMMON_SERVICE_CODES =
     [''SDA_RENT'', ''SIL_SUPPORT'', ''CORE_SUPPORT'', ''CAPACITY_BUILDING'', ''TRANSPORT'',
      ''EQUIPMENT'', ''THERAPY'', ''RESPITE'', ''OTHER'']"

section \<open>Funding records and the repository\<close>

text \<open>
  The fields a funding payload carries once validated: those of the creation schema in
  \<open>residents/[id]/funding/route.ts\<close>.
\<close>

datatype FundingType = NDIS | Government | Private | Family | Other

datatype DrawdownRate = daily | weekly | monthly

record FundingInformation =
  type :: FundingType
  amount :: number
  startDate :: date
  endDate :: "date option"
  description :: "string option"
  isActive :: bool
  drawdownRate :: DrawdownRate
  autoDrawdown :: bool
  renewalDate :: "date option"

text \<open>
  Modelled from the spec: the stored funding record, which \<open>lib/schemas/resident\<close>
  declares and \<open>src/\<close> does not hold. It is the validated payload together with the
  identity and balance fields of section 3 of the specification.
\<close>

record FundingRecord = FundingInformation +
  id' :: string
  residentId :: string
  currentBalance :: number
  contractStatus :: string

text \<open>
  Modelled from the spec: the repository interface of section 6, which
  \<open>lib/utils/transaction-storage\<close> and \<open>lib/utils/resident-storage\<close> implement and
  \<open>src/\<close> does not hold. A lookup returns the first record with the id; a save replaces
  that record, or appends when there is none.
\<close>

record Repository =
  fundingRecords :: "FundingRecord list"
  transactions :: "Transaction list"

definition getFundingRecord :: "Repository \<Rightarrow> string \<Rightarrow> FundingRecord option" where
  "getFundingRecord repo cid = find (\<lambda>f. FundingRecord.id' f = cid) (fundingRecords repo)"

definition getTransaction :: "Repository \<Rightarrow> string \<Rightarrow> Transaction option" where
  "getTransaction repo tid = find (\<lambda>t. Transaction.id' t = tid) (transactions repo)"

fun replaceFunding :: "FundingRecord \<Rightarrow> FundingRecord list \<Rightarrow> FundingRecord list" where
  "replaceFunding f [] = [f]"
| "replaceFunding f (x # xs) =
     (if FundingRecord.id' x = FundingRecord.id' f then f # xs else x # replaceFunding f xs)"

fun replaceTransaction :: "Transaction \<Rightarrow> Transaction list \<Rightarrow> Transaction list" where
  "replaceTransaction t [] = [t]"
| "replaceTransaction t (x # xs) =
     (if Transaction.id' x = Transaction.id' t then t # xs else x # replaceTransaction t xs)"

definition saveFundingRecord :: "FundingRecord \<Rightarrow> Repository \<Rightarrow> Repository" where
  "saveFundingRecord f repo = repo\<lparr>fundingRecords := replaceFunding f (fundingRecords repo)\<rparr>"

definition saveTransaction :: "Transaction \<Rightarrow> Repository \<Rightarrow> Repository" where
  "saveTransaction t repo = repo\<lparr>transactions := replaceTransaction t (transactions repo)\<rparr>"

section \<open>Balance calculator\<close>

text \<open>Rendering of an amount with two decimals, for the warning text.\<close>

fun digits :: "nat \<Rightarrow> string" where
  "digits n = (if n < 10 then [''0123456789'' ! n] else digits (n div 10) @ [''0123456789'' ! (n mod 10)])"

declare digits.simps [simp del]

definition toFixed2 :: "number \<Rightarrow> string" where
  "toFixed2 n =
     (case n of
        Num r \<Rightarrow>
          (let c = \<lfloor>r * 100 + 1 / 2\<rfloor>; a = nat \<bar>c\<bar>
           in (if c < 0 then ''-'' else []) @ digits (a div 100) @ ''.''
                @ [''0123456789'' ! (a mod 100 div 10), ''0123456789'' ! (a mod 10)])
      | PosInf \<Rightarrow> ''Infinity''
      | NegInf \<Rightarrow> ''-Infinity''
      | NaN \<Rightarrow> ''NaN'')"

text \<open>
  Modelled from the spec: the balance calculator of section 4.1, the body of
  \<open>getTransactionBalancePreview\<close> in \<open>lib/utils/transaction-storage\<close>, which \<open>src/\<close> does
  not hold. \<open>remainingAfterPost = currentBalance - transactionAmount\<close>,
  \<open>canPost = remainingAfterPost >= 0\<close>, and the warning is set when \<open>canPost\<close> is false.
\<close>

definition balancePreview :: "FundingRecord \<Rightarrow> number \<Rightarrow> TransactionBalancePreview" where
  "balancePreview f transactionAmount' =
     (let remaining = js_sub (FundingRecord.currentBalance f) transactionAmount';
          ok = js_ge remaining (Num 0)
      in \<lparr> TransactionBalancePreview.currentBalance = FundingRecord.currentBalance f,
           transactionAmount = transactionAmount',
           remainingAfterPost = remaining,
           canPost = ok,
           warningMessage =
             (if ok then None
              else Some (''Exceeds remaining balance by $'' @ toFixed2 (js_neg remaining))) \<rparr>)"

datatype error =
  ValidationError | NotFoundError | InvalidStateError | InsufficientBalanceError | ConsistencyError

text \<open>
  The callers in \<open>src/\<close> pass a contract id and an amount; a contract that does not exist
  is a \<open>NotFoundError\<close> (section 4.3, failure semantics).
\<close>

definition getTransactionBalancePreview ::
  "Repository \<Rightarrow> string \<Rightarrow> number \<Rightarrow> error + TransactionBalancePreview" where
  "getTransactionBalancePreview repo contractId' amount' =
     (case getFundingRecord repo contractId' of
        None \<Rightarrow> Inl NotFoundError
      | Some f \<Rightarrow> Inr (balancePreview f amount'))"

section \<open>Posting workflow\<close>

text \<open>
  Modelled from the spec: the post and void transitions of section 4.3, which
  \<open>lib/utils/transaction-storage\<close> implements and \<open>src/\<close> does not hold. A failed
  transition returns the error and no repository: nothing is written.
\<close>

definition postTransaction ::
  "Repository \<Rightarrow> string \<Rightarrow> string \<Rightarrow> date \<Rightarrow> error + Repository" where
  "postTransaction repo tid user now =
     (case getTransaction repo tid of
        None \<Rightarrow> Inl NotFoundError
      | Some t \<Rightarrow>
          if Transaction.status t \<noteq> draft then Inl InvalidStateError
          else (case getFundingRecord repo (Transaction.contractId t) of
                  None \<Rightarrow> Inl NotFoundError
                | Some f \<Rightarrow>
                    let p = balancePreview f (Transaction.amount t)
                    in if \<not> canPost p then Inl InsufficientBalanceError
                       else Inr (saveFundingRecord
                                   (f\<lparr>FundingRecord.currentBalance :=
                                        js_sub (FundingRecord.currentBalance f) (Transaction.amount t)\<rparr>)
                                   (saveTransaction
                                      (t\<lparr>status := posted, postedAt := Some now,
                                          postedBy := Some user\<rparr>)
                                      repo))))"

definition voidTransaction ::
  "Repository \<Rightarrow> string \<Rightarrow> string \<Rightarrow> string \<Rightarrow> date \<Rightarrow> error + Repository" where
  "voidTransaction repo tid reason user now =
     (case getTransaction repo tid of
        None \<Rightarrow> Inl NotFoundError
      | Some t \<Rightarrow>
          if Transaction.status t \<noteq> posted then Inl InvalidStateError
          else if reason = [] then Inl ValidationError
          else (case getFundingRecord repo (Transaction.contractId t) of
                  None \<Rightarrow> Inl NotFoundError
                | Some f \<Rightarrow>
                    Inr (saveFundingRecord
                           (f\<lparr>FundingRecord.currentBalance :=
                                js_add (FundingRecord.currentBalance f) (Transaction.amount t)\<rparr>)
                           (saveTransaction
                              (t\<lparr>status := voided, voidedAt := Some now, voidedBy := Some user,
                                  voidReason := Some reason\<rparr>)
                              repo))))"

text \<open>
  A sequence of post and void operations. An operation that fails leaves the repository
  as it was; \<open>states\<close> lists the repository after each operation, the starting one first.
\<close>

datatype operation =
  Post string string date
| Void string string string date

fun applyOperation :: "Repository \<Rightarrow> operation \<Rightarrow> Repository" where
  "applyOperation repo (Post tid user now) =
     (case postTransaction repo tid user now of Inl e \<Rightarrow> repo | Inr repo' \<Rightarrow> repo')"
| "applyOperation repo (Void tid reason user now) =
     (case voidTransaction repo tid reason user now of Inl e \<Rightarrow> repo | Inr repo' \<Rightarrow> repo')"

fun states :: "Repository \<Rightarrow> operation list \<Rightarrow> Repository list" where
  "states repo [] = [repo]"
| "states repo (op # ops) = repo # states (applyOperation repo op) ops"

section \<open>Arithmetic on doubles\<close>

text \<open>
  The sum of two doubles is the exact sum rounded to the nearest double, ties to the even
  significand (IEEE 754 binary64, the arithmetic of the declared \<open>number\<close>). A double has
  53 significant bits: with \<open>2^e \<le> |x| < 2^(e+1)\<close> the doubles around \<open>x\<close> are the
  multiples of \<open>2^(e-52)\<close>, of \<open>2^-1074\<close> at least; a result that rounds to \<open>2^1024\<close> or
  beyond is infinite.
\<close>

fun bitLength :: "nat \<Rightarrow> nat" where
  "bitLength n = (if n = 0 then 0 else Suc (bitLength (n div 2)))"

declare bitLength.simps [simp del]

text \<open>The \<open>e\<close> with \<open>2^e \<le> x < 2^(e+1)\<close>, for a positive \<open>x\<close>.\<close>

definition exponent :: "rat \<Rightarrow> int" where
  "exponent x =
     (if 1 \<le> x then int (bitLength (nat \<lfloor>x\<rfloor>)) - 1
      else - int (bitLength (nat (\<lceil>1 / x\<rceil> - 1))))"

definition roundHalfEven :: "rat \<Rightarrow> int" where
  "roundHalfEven x =
     (let f = \<lfloor>x\<rfloor>; d = x - of_int f
      in if d < 1 / 2 then f else if 1 / 2 < d then f + 1 else if even f then f else f + 1)"

definition binary64 :: "rat \<Rightarrow> number" where
  "binary64 x =
     (if x = 0 then Num 0
      else (let e = max (exponent \<bar>x\<bar>) (- 1022);
                q = 2 powi (e - 52);
                r = of_int (roundHalfEven (x / q)) * q
            in if 2 powi 1024 \<le> \<bar>r\<bar> then (if 0 < x then PosInf else NegInf) else Num r))"

text \<open>\<open>a + b\<close> and \<open>a - b\<close> on doubles: as \<open>js_add\<close> and \<open>js_sub\<close>, the finite result rounded.\<close>

fun add64 :: "number \<Rightarrow> number \<Rightarrow> number" where
  "add64 NaN b = NaN"
| "add64 a NaN = NaN"
| "add64 (Num a) (Num b) = binary64 (a + b)"
| "add64 PosInf NegInf = NaN"
| "add64 NegInf PosInf = NaN"
| "add64 PosInf b = PosInf"
| "add64 NegInf b = NegInf"
| "add64 (Num a) b = b"

definition sub64 :: "number \<Rightarrow> number \<Rightarrow> number" where
  "sub64 a b = add64 a (js_neg b)"

section \<open>Posting workflow on doubles\<close>

text \<open>
  Modelled from the spec: the post and void transitions of section 4.3 once more, with
  the balance a \<open>number\<close> as the declared types have it: the decrement and the increment
  are rounded to doubles.
\<close>

definition postTransaction64 ::
  "Repository \<Rightarrow> string \<Rightarrow> string \<Rightarrow> date \<Rightarrow> error + Repository" where
  "postTransaction64 repo tid user now =
     (case getTransaction repo tid of
        None \<Rightarrow> Inl NotFoundError
      | Some t \<Rightarrow>
          if Transaction.status t \<noteq> draft then Inl InvalidStateError
          else (case getFundingRecord repo (Transaction.contractId t) of
                  None \<Rightarrow> Inl NotFoundError
                | Some f \<Rightarrow>
                    let remaining = sub64 (FundingRecord.currentBalance f) (Transaction.amount t)
                    in if \<not> js_ge remaining (Num 0) then Inl InsufficientBalanceError
                       else Inr (saveFundingRecord
                                   (f\<lparr>FundingRecord.currentBalance := remaining\<rparr>)
                                   (saveTransaction
                                      (t\<lparr>status := posted, postedAt := Some now,
                                          postedBy := Some user\<rparr>)
                                      repo))))"

definition voidTransaction64 ::
  "Repository \<Rightarrow> string \<Rightarrow> string \<Rightarrow> string \<Rightarrow> date \<Rightarrow> error + Repository" where
  "voidTransaction64 repo tid reason user now =
     (case getTransaction repo tid of
        None \<Rightarrow> Inl NotFoundError
      | Some t \<Rightarrow>
          if Transaction.status t \<noteq> posted then Inl InvalidStateError
          else if reason = [] then Inl ValidationError
          else (case getFundingRecord repo (Transaction.contractId t) of
                  None \<Rightarrow> Inl NotFoundError
                | Some f \<Rightarrow>
                    Inr (saveFundingRecord
                           (f\<lparr>FundingRecord.currentBalance :=
                                add64 (FundingRecord.currentBalance f) (Transaction.amount t)\<rparr>)
                           (saveTransaction
                              (t\<lparr>status := voided, voidedAt := Some now, voidedBy := Some user,
                                  voidReason := Some reason\<rparr>)
                              repo))))"

fun applyOperation64 :: "Repository \<Rightarrow> operation \<Rightarrow> Repository" where
  "applyOperation64 repo (Post tid user now) =
     (case postTransaction64 repo tid user now of Inl e \<Rightarrow> repo | Inr repo' \<Rightarrow> repo')"
| "applyOperation64 repo (Void tid reason user now) =
     (case voidTransaction64 repo tid reason user now of Inl e \<Rightarrow> repo | Inr repo' \<Rightarrow> repo')"

fun states64 :: "Repository \<Rightarrow> operation list \<Rightarrow> Repository list" where
  "states64 repo [] = [repo]"
| "states64 repo (op # ops) = repo # states64 (applyOperation64 repo op) ops"





fun magnitude :: "number \<Rightarrow> rat" where
  "magnitude (Num r) = \<bar>r\<bar>"
| "magnitude PosInf = 0"
| "magnitude NegInf = 0"
| "magnitude NaN = 0"


section \<open>Request data and schema validation\<close>

text \<open>
  A field of a JSON body is absent (\<open>undefined\<close>, here \<open>None\<close>) or holds a value; the
  model covers the primitive values. A body is the map from its keys to their values;
  the query string is the map that \<open>searchParams.get\<close> reads, \<open>None\<close> being its \<open>null\<close>.
  A string is the list of its code units.
\<close>

datatype json = JNull | JBool bool | JNum number | JStr string

type_synonym body = "string \<rightharpoonup> json"

type_synonym searchParams = "string \<rightharpoonup> string"

text \<open>
  An issue of a failed validation: its code, the path of the field and, where the schema
  gives one, its message.
\<close>

record ZodIssue =
  code :: string
  path :: "string list"
  message :: "string option"

definition issue :: "string \<Rightarrow> string list \<Rightarrow> string option \<Rightarrow> ZodIssue" where
  "issue c p m = \<lparr> code = c, path = p, message = m \<rparr>"

text \<open>
  The outcome of parsing a value with a schema: the issues found and the value, which is
  missing when the parse was aborted (a wrong type, an invalid date, an unknown enum
  value). A failed check (a bound, a refinement) adds an issue and keeps the value, so
  that later checks and refinements still run. \<open>safeParse\<close> succeeds when there is a
  value and no issue.
\<close>

type_synonym 'a parsed = "ZodIssue list \<times> 'a option"

definition safeParse :: "'a parsed \<Rightarrow> ZodIssue list + 'a" where
  "safeParse r = (case r of ([], Some v) \<Rightarrow> Inr v | (is, _) \<Rightarrow> Inl is)"

definition check :: "('a \<Rightarrow> bool) \<Rightarrow> ZodIssue \<Rightarrow> 'a parsed \<Rightarrow> 'a parsed" where
  "check ok i r =
     (case r of
        (is, Some v) \<Rightarrow> if ok v then (is, Some v) else (is @ [i], Some v)
      | (is, None) \<Rightarrow> (is, None))"

text \<open>
  \<open>z.string()\<close>, \<open>z.number()\<close> (which refuses \<open>NaN\<close>), \<open>z.boolean()\<close>, \<open>z.enum([...])\<close>.
  The bounds of a number are checks that fail when the value is beyond them:
  \<open>.positive()\<close> fails on \<open>n <= 0\<close>, \<open>.nonnegative()\<close> and \<open>.min(0)\<close> on \<open>n < 0\<close>,
  \<open>.max(m)\<close> on \<open>n > m\<close>.
\<close>

definition z_string :: "string list \<Rightarrow> json option \<Rightarrow> string parsed" where
  "z_string p v =
     (case v of
        Some (JStr s) \<Rightarrow> ([], Some s)
      | _ \<Rightarrow> ([issue ''invalid_type'' p None], None))"

definition z_number :: "string list \<Rightarrow> json option \<Rightarrow> number parsed" where
  "z_number p v =
     (case v of
        Some (JNum n) \<Rightarrow> if n = NaN then ([issue ''invalid_type'' p None], None) else ([], Some n)
      | _ \<Rightarrow> ([issue ''invalid_type'' p None], None))"


definition z_enum :: "string list \<Rightarrow> string list \<Rightarrow> json option \<Rightarrow> string parsed" where
  "z_enum values p v =
     (case v of
        Some (JStr s) \<Rightarrow>
          if s \<in> set values then ([], Some s)
          else ([issue ''invalid_enum_value'' p None], None)
      | _ \<Rightarrow> ([issue ''invalid_type'' p None], None))"

text \<open>
  \<open>new Date(v)\<close>: \<open>undefined\<close> gives an invalid date, \<open>null\<close> the epoch, a boolean 0 or 1,
  a number its truncation when it lies within the range of time values, a string what
  \<open>Date.parse\<close> makes of it. \<open>Date.parse\<close> is left to the engine outside the ISO format and
  is a parameter here: \<open>None\<close> is its \<open>NaN\<close>.
\<close>

definition timeClip :: "number \<Rightarrow> date option" where
  "timeClip n =
     (case n of
        Num r \<Rightarrow>
          if \<bar>r\<bar> \<le> 8640000000000000 then Some (if 0 \<le> r then \<lfloor>r\<rfloor> else \<lceil>r\<rceil>) else None
      | _ \<Rightarrow> None)"

definition newDate :: "(string \<Rightarrow> date option) \<Rightarrow> json option \<Rightarrow> date option" where
  "newDate dateParse v =
     (case v of
        None \<Rightarrow> None
      | Some JNull \<Rightarrow> Some 0
      | Some (JBool b) \<Rightarrow> Some (if b then 1 else 0)
      | Some (JNum n) \<Rightarrow> timeClip n
      | Some (JStr s) \<Rightarrow> dateParse s)"

text \<open>\<open>z.coerce.date()\<close>: the input goes through \<open>new Date\<close> and must come out valid.\<close>

definition z_coerce_date ::
  "(string \<Rightarrow> date option) \<Rightarrow> string list \<Rightarrow> json option \<Rightarrow> date parsed" where
  "z_coerce_date dateParse p v =
     (case newDate dateParse v of
        None \<Rightarrow> ([issue ''invalid_date'' p None], None)
      | Some d \<Rightarrow> ([], Some d))"

text \<open>
  \<open>.optional()\<close> answers \<open>undefined\<close> for \<open>undefined\<close> and hands every other input,
  \<open>null\<close> included, to the inner schema. \<open>.default(d)\<close> parses \<open>d\<close> in place of
  \<open>undefined\<close>.
\<close>

definition z_optional :: "(json option \<Rightarrow> 'a parsed) \<Rightarrow> json option \<Rightarrow> 'a option parsed" where
  "z_optional schema v =
     (case v of
        None \<Rightarrow> ([], Some None)
      | Some x \<Rightarrow> (case schema v of (is, r) \<Rightarrow> (is, map_option Some r)))"

definition z_default :: "json \<Rightarrow> (json option \<Rightarrow> 'a parsed) \<Rightarrow> json option \<Rightarrow> 'a parsed" where
  "z_default d schema v = (case v of None \<Rightarrow> schema (Some d) | Some x \<Rightarrow> schema v)"



text \<open>
  \<open>z.object({...})\<close> parses every field, gathers the issues in the order of the keys and
  has a value when every field has one. \<open>z_field\<close> adds one parsed field to the object
  built so far.
\<close>

definition z_field :: "('a \<Rightarrow> 'b) parsed \<Rightarrow> 'a parsed \<Rightarrow> 'b parsed" where
  "z_field obj r =
     (fst obj @ fst r,
      case snd obj of
        None \<Rightarrow> None
      | Some f \<Rightarrow> (case snd r of None \<Rightarrow> None | Some x \<Rightarrow> Some (f x)))"

section \<open>Creating a transaction (app/api/transactions/route.ts, POST)\<close>

definition createTransactionSchema ::
  "(string \<Rightarrow> date option) \<Rightarrow> body \<Rightarrow> TransactionCreateInput parsed" where
  "createTransactionSchema dateParse b =
     (let r0 = ([], Some (\<lambda>residentId' contractId' occurredAt' serviceCode' description'
                           quantity' unitPrice' amount' note''.
                  \<lparr> TransactionCreateInput.residentId = residentId',
                    TransactionCreateInput.contractId = contractId',
                    TransactionCreateInput.occurredAt = occurredAt',
                    TransactionCreateInput.serviceCode = serviceCode',
                    TransactionCreateInput.description = description',
                    TransactionCreateInput.quantity = quantity',
                    TransactionCreateInput.unitPrice = unitPrice',
                    TransactionCreateInput.amount = amount',
                    TransactionCreateInput.note' = note'' \<rparr>));
          r1 = z_field r0
                 (check (\<lambda>s. 1 \<le> length s)
                    (issue ''too_small'' [''residentId''] (Some ''Resident ID is required''))
                    (z_string [''residentId''] (b ''residentId'')));
          r2 = z_field r1
                 (check (\<lambda>s. 1 \<le> length s)
                    (issue ''too_small'' [''contractId''] (Some ''Contract ID is required''))
                    (z_string [''contractId''] (b ''contractId'')));
          r3 = z_field r2 (z_coerce_date dateParse [''occurredAt''] (b ''occurredAt''));
          r4 = z_field r3
                 (check (\<lambda>s. 1 \<le> length s)
                    (issue ''too_small'' [''serviceCode''] (Some ''Service code is required''))
                    (z_string [''serviceCode''] (b ''serviceCode'')));
          r5 = z_field r4 (z_optional (z_string [''description'']) (b ''description''));
          r6 = z_field r5
                 (check (\<lambda>n. \<not> js_le n (Num 0))
                    (issue ''too_small'' [''quantity''] (Some ''Quantity must be positive''))
                    (z_number [''quantity''] (b ''quantity'')));
          r7 = z_field r6
                 (check (\<lambda>n. \<not> js_lt n (Num 0))
                    (issue ''too_small'' [''unitPrice''] (Some ''Unit price must be non-negative''))
                    (z_number [''unitPrice''] (b ''unitPrice'')));
          r8 = z_field r7
                 (z_optional
                    (\<lambda>v. check (\<lambda>n. \<not> js_lt n (Num 0)) (issue ''too_small'' [''amount''] None)
                           (z_number [''amount''] v))
                    (b ''amount''));
          r9 = z_field r8 (z_optional (z_string [''note'']) (b ''note''))
      in r9)"

text \<open>
  \<open>input.amount || (input.quantity * input.unitPrice)\<close>, the amount the handler hands to the
  balance preview: the left operand when it is truthy, the product otherwise.
\<close>

definition previewAmount :: "TransactionCreateInput \<Rightarrow> number" where
  "previewAmount input =
     (case TransactionCreateInput.amount input of
        Some a \<Rightarrow>
          if truthy_number a then a
          else js_mul (TransactionCreateInput.quantity input) (TransactionCreateInput.unitPrice input)
      | None \<Rightarrow>
          js_mul (TransactionCreateInput.quantity input) (TransactionCreateInput.unitPrice input))"

text \<open>
  The responses of the handler: 201 with the transaction and the preview, 400 with the
  issues of the schema, 500 when a call threw.
\<close>

datatype 'e TransactionsPostResponse =
  Created Transaction TransactionBalancePreview
| InvalidTransactionData "ZodIssue list"
| FailedToCreate 'e

text \<open>
  \<open>getTransactionBalancePreview\<close> and \<open>createTransaction\<close> are imported from
  \<open>lib/utils/transaction-storage\<close>; the handler is modelled over any two such functions,
  \<open>Inl\<close> being what they throw.
\<close>

definition POST_transactions ::
  "(string \<Rightarrow> number \<Rightarrow> 'e + TransactionBalancePreview)
     \<Rightarrow> (TransactionCreateInput \<Rightarrow> string \<Rightarrow> 'e + Transaction)
     \<Rightarrow> (string \<Rightarrow> date option) \<Rightarrow> body \<Rightarrow> 'e TransactionsPostResponse" where
  "POST_transactions getPreview createTransaction dateParse b =
     (case safeParse (createTransactionSchema dateParse b) of
        Inl issues \<Rightarrow> InvalidTransactionData issues
      | Inr input \<Rightarrow>
          (case getPreview (TransactionCreateInput.contractId input) (previewAmount input) of
             Inl e \<Rightarrow> FailedToCreate e
           | Inr balancePreview' \<Rightarrow>
               (case createTransaction input ''current-user'' of
                  Inl e \<Rightarrow> FailedToCreate e
                | Inr transaction \<Rightarrow> Created transaction balancePreview')))"

section \<open>Listing transactions (app/api/transactions/route.ts, GET)\<close>

text \<open>
  \<open>parseInt(s, 10)\<close>: leading white space is dropped, a sign is read, then the longest
  run of decimal digits; no digit gives \<open>NaN\<close>. The white space is the ASCII one.
\<close>

definition isWhiteSpace :: "char \<Rightarrow> bool" where
  "isWhiteSpace c = (c \<in> set [CHR 0x09, CHR 0x0A, CHR 0x0B, CHR 0x0C, CHR 0x0D, CHR '' ''])"

definition isDigit :: "char \<Rightarrow> bool" where
  "isDigit c = (c \<in> set ''0123456789'')"

definition digitValue :: "char \<Rightarrow> int" where
  "digitValue c = of_char c - 48"

definition parseInt10 :: "string \<Rightarrow> number" where
  "parseInt10 s =
     (let s1 = dropWhile isWhiteSpace s;
          negative = (case s1 of [] \<Rightarrow> False | c # cs \<Rightarrow> c = CHR ''-'');
          s2 = (case s1 of [] \<Rightarrow> [] | c # cs \<Rightarrow> if c = CHR ''+'' \<or> c = CHR ''-'' then cs else s1);
          z = takeWhile isDigit s2;
          mathInt = foldl (\<lambda>a c. 10 * a + digitValue c) 0 z
      in if z = [] then NaN
         else Num (of_int (if negative then - mathInt else mathInt)))"

text \<open>\<open>x || d\<close> on what \<open>searchParams.get\<close> returns: \<open>null\<close> and the empty string are falsy.\<close>

definition orDefault :: "string option \<Rightarrow> string \<Rightarrow> string" where
  "orDefault x d = (case x of None \<Rightarrow> d | Some s \<Rightarrow> if s = [] then d else s)"

definition page :: "searchParams \<Rightarrow> number" where
  "page sp = parseInt10 (orDefault (sp ''page'') ''1'')"

definition pageSize :: "searchParams \<Rightarrow> number" where
  "pageSize sp = Math_min (parseInt10 (orDefault (sp ''pageSize'') ''25'')) (Num 100)"

text \<open>
  The raw filters are what \<open>searchParams.get\<close> returns for each name: a string, or \<open>null\<close>
  for a name the query does not have. No key of \<open>rawFilters\<close> is ever \<open>undefined\<close>.
\<close>

definition raw :: "string option \<Rightarrow> json option" where
  "raw x = (case x of None \<Rightarrow> Some JNull | Some s \<Rightarrow> Some (JStr s))"

definition rawFilters :: "searchParams \<Rightarrow> body" where
  "rawFilters sp =
     (\<lambda>k. if k \<in> set [''dateFrom'', ''dateTo'', ''residentIds'', ''contractIds'', ''houseIds'',
                         ''statuses'', ''serviceCode'', ''search'']
          then raw (sp k) else None)"

record FiltersData =
  dateFrom :: "date option"
  dateTo :: "date option"
  residentIds :: "string option"
  contractIds :: "string option"
  houseIds :: "string option"
  statuses :: "string option"
  serviceCode :: "string option"
  search :: "string option"

definition filtersSchema :: "(string \<Rightarrow> date option) \<Rightarrow> body \<Rightarrow> FiltersData parsed" where
  "filtersSchema dateParse b =
     (let r0 = ([], Some (\<lambda>dateFrom' dateTo' residentIds' contractIds' houseIds' statuses'
                           serviceCode' search'.
                  \<lparr> dateFrom = dateFrom', dateTo = dateTo',
                    FiltersData.residentIds = residentIds',
                    FiltersData.contractIds = contractIds',
                    FiltersData.houseIds = houseIds',
                    FiltersData.statuses = statuses',
                    FiltersData.serviceCode = serviceCode',
                    FiltersData.search = search' \<rparr>));
          r1 = z_field r0 (z_optional (z_coerce_date dateParse [''dateFrom'']) (b ''dateFrom''));
          r2 = z_field r1 (z_optional (z_coerce_date dateParse [''dateTo'']) (b ''dateTo''));
          r3 = z_field r2 (z_optional (z_string [''residentIds'']) (b ''residentIds''));
          r4 = z_field r3 (z_optional (z_string [''contractIds'']) (b ''contractIds''));
          r5 = z_field r4 (z_optional (z_string [''houseIds'']) (b ''houseIds''));
          r6 = z_field r5 (z_optional (z_string [''statuses'']) (b ''statuses''));
          r7 = z_field r6 (z_optional (z_string [''serviceCode'']) (b ''serviceCode''));
          r8 = z_field r7 (z_optional (z_string [''search'']) (b ''search''))
      in r8)"

text \<open>\<open>s.split(',')\<close>.\<close>

fun split_comma :: "string \<Rightarrow> string list" where
  "split_comma [] = [[]]"
| "split_comma (c # cs) =
     (if c = CHR '','' then [] # split_comma cs
      else (case split_comma cs of [] \<Rightarrow> [[c]] | w # ws \<Rightarrow> (c # w) # ws))"

text \<open>
  The conversion to \<open>TransactionFilters\<close>, each filter set when the parsed value is
  truthy: a string when it is not empty, a \<open>Date\<close> object always. So the date range is
  set exactly when both parsed dates are there.
\<close>

definition filters :: "FiltersData \<Rightarrow> TransactionFilters" where
  "filters d =
     \<lparr> dateRange =
         (case dateFrom d of
            None \<Rightarrow> None
          | Some from \<Rightarrow> (case dateTo d of None \<Rightarrow> None | Some to \<Rightarrow> Some (from, to))),
       TransactionFilters.residentIds =
         (case FiltersData.residentIds d of
            None \<Rightarrow> None
          | Some s \<Rightarrow> if s = [] then None else Some (filter (\<lambda>w. w \<noteq> []) (split_comma s))),
       TransactionFilters.contractIds =
         (case FiltersData.contractIds d of
            None \<Rightarrow> None
          | Some s \<Rightarrow> if s = [] then None else Some (filter (\<lambda>w. w \<noteq> []) (split_comma s))),
       TransactionFilters.houseIds =
         (case FiltersData.houseIds d of
            None \<Rightarrow> None
          | Some s \<Rightarrow> if s = [] then None else Some (filter (\<lambda>w. w \<noteq> []) (split_comma s))),
       TransactionFilters.statuses =
         (case FiltersData.statuses d of
            None \<Rightarrow> None
          | Some s \<Rightarrow> if s = [] then None else Some (split_comma s)),
       TransactionFilters.serviceCode =
         (case FiltersData.serviceCode d of
            None \<Rightarrow> None
          | Some s \<Rightarrow> if s = [] then None else Some s),
       TransactionFilters.search =
         (case FiltersData.search d of
            None \<Rightarrow> None
          | Some s \<Rightarrow> if s = [] then None else Some s) \<rparr>"

definition rawSort :: "searchParams \<Rightarrow> body" where
  "rawSort sp =
     [''field'' \<mapsto> JStr (orDefault (sp ''sortField'') ''occurredAt''),
      ''direction'' \<mapsto> JStr (orDefault (sp ''sortDirection'') ''desc'')]"

definition sortSchema :: "body \<Rightarrow> TransactionSortConfig parsed" where
  "sortSchema b =
     (let r0 = ([], Some (\<lambda>field' direction'. \<lparr> field = field', direction = direction' \<rparr>));
          r1 = z_field r0
                 (z_default (JStr ''occurredAt'')
                    (z_enum [''occurredAt'', ''amount'', ''status'', ''serviceCode'', ''createdAt'',
                             ''residentName'', ''houseName'', ''contractType''] [''field''])
                    (b ''field''));
          r2 = z_field r1
                 (z_default (JStr ''desc'') (z_enum [''asc'', ''desc''] [''direction''])
                    (b ''direction''))
      in r2)"

text \<open>
  The responses of the handler. \<open>getTransactionsList\<close> is imported from
  \<open>lib/utils/transaction-storage\<close>; the handler is modelled over any such function and
  passes it the filters, the sort, the page and the page size.
\<close>

datatype ('r, 'e) TransactionsGetResponse =
  Listed 'r
| InvalidFilterParameters "ZodIssue list"
| InvalidSortParameters "ZodIssue list"
| FailedToFetch 'e

definition GET_transactions ::
  "(TransactionFilters \<Rightarrow> TransactionSortConfig \<Rightarrow> number \<Rightarrow> number \<Rightarrow> 'e + 'r)
     \<Rightarrow> (string \<Rightarrow> date option) \<Rightarrow> searchParams \<Rightarrow> ('r, 'e) TransactionsGetResponse" where
  "GET_transactions getTransactionsList dateParse sp =
     (let page' = page sp; pageSize' = pageSize sp
      in case safeParse (filtersSchema dateParse (rawFilters sp)) of
           Inl issues \<Rightarrow> InvalidFilterParameters issues
         | Inr d \<Rightarrow>
             (case safeParse (sortSchema (rawSort sp)) of
                Inl issues \<Rightarrow> InvalidSortParameters issues
              | Inr sort' \<Rightarrow>
                  (case getTransactionsList (filters d) sort' page' pageSize' of
                     Inl e \<Rightarrow> FailedToFetch e
                   | Inr result \<Rightarrow> Listed result)))"

section \<open>Funding of a resident (app/api/residents/[id]/funding/route.ts)\<close>



definition z_map :: "('a \<Rightarrow> 'b) \<Rightarrow> 'a parsed \<Rightarrow> 'b parsed" where
  "z_map f r = (fst r, map_option f (snd r))"





text \<open>
  Modelled from the spec: the resident type of \<open>lib/schemas/resident\<close>, which \<open>src/\<close> does
  not hold; the handlers read its funding list only.
\<close>

record Resident =
  id' :: string
  fundingInformation :: "FundingRecord list"

datatype FundingResponse =
  FundingAdded "FundingRecord option"
| FundingUpdated "FundingRecord option"
| InvalidFundingInformation "ZodIssue list"
| FundingIdRequired
| NotFound


text \<open>Truthiness of a JSON value, as \<open>!fundingId\<close> tests it.\<close>

fun truthy :: "json option \<Rightarrow> bool" where
  "truthy None = False"
| "truthy (Some JNull) = False"
| "truthy (Some (JBool b)) = b"
| "truthy (Some (JNum n)) = truthy_number n"
| "truthy (Some (JStr s)) = (s \<noteq> [])"

text \<open>
  PUT. The body is split into \<open>fundingId\<close> and the updates; the updates are validated
  with \<open>fundingInformationSchema.partial()\<close> and, when valid, handed to
  \<open>updateFundingInResident\<close>. Both are imported, from \<open>lib/schemas/resident\<close> and
  \<open>lib/utils/resident-storage\<close>; the handler is modelled over any validation and any
  update function. The response holds the record of the returned resident whose id is
  \<open>fundingId\<close>.
\<close>

definition PUT_funding ::
  "(body \<Rightarrow> ZodIssue list + 'u)
     \<Rightarrow> ('s \<Rightarrow> string \<Rightarrow> json \<Rightarrow> 'u \<Rightarrow> (Resident \<times> 's) option)
     \<Rightarrow> 's \<Rightarrow> string \<Rightarrow> body \<Rightarrow> FundingResponse \<times> 's" where
  "PUT_funding validate updateFunding store rid b =
     (if \<not> truthy (b ''fundingId'') then (FundingIdRequired, store)
      else (case validate (b(''fundingId'' := None)) of
              Inl issues \<Rightarrow> (InvalidFundingInformation issues, store)
            | Inr data \<Rightarrow>
                (case updateFunding store rid (the (b ''fundingId'')) data of
                   None \<Rightarrow> (NotFound, store)
                 | Some (updatedResident, store') \<Rightarrow>
                     (FundingUpdated
                        (find (\<lambda>f. JStr (FundingRecord.id' f) = the (b ''fundingId''))
                           (fundingInformation updatedResident)),
                      store'))))"

text \<open>
  Modelled from the spec: the validated partial update and \<open>updateFundingInResident\<close> of
  \<open>lib/utils/resident-storage\<close>, which \<open>src/\<close> does not hold. Section 4.2: only the
  supplied fields are merged, the others keep their prior values.
\<close>

record FundingUpdates =
  type :: "FundingType option"
  amount :: "number option"
  startDate :: "date option"
  endDate :: "date option"
  description :: "string option"
  isActive :: "bool option"
  drawdownRate :: "DrawdownRate option"
  autoDrawdown :: "bool option"
  renewalDate :: "date option"

definition supplied :: "'a option \<Rightarrow> 'a \<Rightarrow> 'a" where
  "supplied new old = (case new of None \<Rightarrow> old | Some v \<Rightarrow> v)"

definition mergeFunding :: "FundingRecord \<Rightarrow> FundingUpdates \<Rightarrow> FundingRecord" where
  "mergeFunding f u =
     f\<lparr> FundingInformation.type := supplied (FundingUpdates.type u) (FundingInformation.type f),
        FundingInformation.amount := supplied (FundingUpdates.amount u) (FundingInformation.amount f),
        FundingInformation.startDate :=
          supplied (FundingUpdates.startDate u) (FundingInformation.startDate f),
        FundingInformation.endDate :=
          supplied (map_option Some (FundingUpdates.endDate u)) (FundingInformation.endDate f),
        FundingInformation.description :=
          supplied (map_option Some (FundingUpdates.description u))
            (FundingInformation.description f),
        FundingInformation.isActive :=
          supplied (FundingUpdates.isActive u) (FundingInformation.isActive f),
        FundingInformation.drawdownRate :=
          supplied (FundingUpdates.drawdownRate u) (FundingInformation.drawdownRate f),
        FundingInformation.autoDrawdown :=
          supplied (FundingUpdates.autoDrawdown u) (FundingInformation.autoDrawdown f),
        FundingInformation.renewalDate :=
          supplied (map_option Some (FundingUpdates.renewalDate u))
            (FundingInformation.renewalDate f) \<rparr>"

fun replaceResident :: "Resident \<Rightarrow> Resident list \<Rightarrow> Resident list" where
  "replaceResident r [] = [r]"
| "replaceResident r (x # xs) =
     (if Resident.id' x = Resident.id' r then r # xs else x # replaceResident r xs)"

definition updateFundingInResident ::
  "Resident list \<Rightarrow> string \<Rightarrow> json \<Rightarrow> FundingUpdates \<Rightarrow> (Resident \<times> Resident list) option" where
  "updateFundingInResident store rid fundingId u =
     (case find (\<lambda>r. Resident.id' r = rid) store of
        None \<Rightarrow> None
      | Some r \<Rightarrow>
          (case find (\<lambda>f. JStr (FundingRecord.id' f) = fundingId) (fundingInformation r) of
             None \<Rightarrow> None
           | Some f \<Rightarrow>
               (let r' = r\<lparr>fundingInformation :=
                             replaceFunding (mergeFunding f u) (fundingInformation r)\<rparr>
                in Some (r', replaceResident r' store))))"

section \<open>Auxiliary notions for the proofs\<close>

text \<open>
  The rational carried by a finite number, and the posted total of a contract as a
  rational: what \<open>postedTotal\<close> computes when every amount is finite.
\<close>

fun amountValue :: "number \<Rightarrow> rat" where
  "amountValue (Num r) = r"
| "amountValue PosInf = 0"
| "amountValue NegInf = 0"
| "amountValue NaN = 0"

definition postedValue :: "string \<Rightarrow> Transaction list \<Rightarrow> rat" where
  "postedValue cid txs =
     sum_list (map (\<lambda>t. amountValue (Transaction.amount t))
       (filter (\<lambda>t. Transaction.contractId t = cid \<and> Transaction.status t = posted) txs))"

definition contribution :: "string \<Rightarrow> Transaction \<Rightarrow> rat" where
  "contribution cid t =
     (if Transaction.contractId t = cid \<and> Transaction.status t = posted
      then amountValue (Transaction.amount t) else 0)"

section \<open>Example data\<close>

text \<open>
  The scenario of section 8 of the specification: a contract of 1000 with draft
  transactions of 300 (2 at 150) and 800, and a third of 1200 (8 at 150).
\<close>

definition exampleContract :: FundingRecord where
  "exampleContract =
     \<lparr> FundingInformation.type = NDIS, FundingInformation.amount = Num 1000,
       FundingInformation.startDate = 1704067200000, FundingInformation.endDate = None,
       FundingInformation.description = None, FundingInformation.isActive = True,
       FundingInformation.drawdownRate = monthly, FundingInformation.autoDrawdown = True,
       FundingInformation.renewalDate = None,
       FundingRecord.id' = ''c1'', FundingRecord.residentId = ''r1'',
       currentBalance = Num 1000, contractStatus = ''Active'' \<rparr>"

definition exampleTransaction :: "string \<Rightarrow> number \<Rightarrow> number \<Rightarrow> Transaction" where
  "exampleTransaction tid q p =
     \<lparr> Transaction.id' = tid, Transaction.residentId = ''r1'', Transaction.contractId = ''c1'',
       Transaction.occurredAt = 1704067200000, Transaction.serviceCode = ''SIL_SUPPORT'',
       Transaction.description = None, Transaction.quantity = q, Transaction.unitPrice = p,
       Transaction.amount = js_mul q p, status = draft, Transaction.note' = None,
       createdAt = 1704067200000, createdBy = ''current-user'', postedAt = None,
       postedBy = None, voidedAt = None, voidedBy = None, voidReason = None \<rparr>"

definition exampleRepository :: Repository where
  "exampleRepository =
     \<lparr> fundingRecords = [exampleContract],
       transactions = [exampleTransaction ''t1'' (Num 2) (Num 150),
                       exampleTransaction ''t2'' (Num 1) (Num 800),
                       exampleTransaction ''t3'' (Num 8) (Num 150)] \<rparr>"

definition exampleOperations :: "operation list" where
  "exampleOperations =
     [Post ''t1'' ''current-user'' 1704153600000,
      Post ''t2'' ''current-user'' 1704153600000,
      Void ''t1'' ''duplicate'' ''current-user'' 1704240000000]"

text \<open>
  A date parser that knows two ISO dates, a creation body for two units at 150, and a
  creation function that stores nothing: it answers a draft transaction with the fields
  of the input, the supplied amount or else the product.
\<close>

definition exampleDateParse :: "string \<Rightarrow> date option" where
  "exampleDateParse s =
     (if s = ''2024-01-01'' then Some 1704067200000
      else if s = ''2023-12-31'' then Some 1703980800000
      else None)"

definition exampleBody :: body where
  "exampleBody =
     [''residentId'' \<mapsto> JStr ''r1'', ''contractId'' \<mapsto> JStr ''c1'',
      ''occurredAt'' \<mapsto> JStr ''2024-01-01'', ''serviceCode'' \<mapsto> JStr ''SIL_SUPPORT'',
      ''quantity'' \<mapsto> JNum (Num 2), ''unitPrice'' \<mapsto> JNum (Num 150)]"

definition exampleCreateTransaction :: "TransactionCreateInput \<Rightarrow> string \<Rightarrow> error + Transaction" where
  "exampleCreateTransaction input user =
     Inr \<lparr> Transaction.id' = ''t9'',
           Transaction.residentId = TransactionCreateInput.residentId input,
           Transaction.contractId = TransactionCreateInput.contractId input,
           Transaction.occurredAt = TransactionCreateInput.occurredAt input,
           Transaction.serviceCode = TransactionCreateInput.serviceCode input,
           Transaction.description = TransactionCreateInput.description input,
           Transaction.quantity = TransactionCreateInput.quantity input,
           Transaction.unitPrice = TransactionCreateInput.unitPrice input,
           Transaction.amount =
             (case TransactionCreateInput.amount input of
                None \<Rightarrow> js_mul (TransactionCreateInput.quantity input)
                          (TransactionCreateInput.unitPrice input)
              | Some a \<Rightarrow> a),
           status = draft, Transaction.note' = TransactionCreateInput.note' input,
           createdAt = 1704067200000, createdBy = user, postedAt = None, postedBy = None,
           voidedAt = None, voidedBy = None, voidReason = None \<rparr>"

text \<open>A query that supplies every string filter, empty, and nothing else.\<close>

definition exampleQuery :: searchParams where
  "exampleQuery =
     [''residentIds'' \<mapsto> [], ''contractIds'' \<mapsto> [], ''houseIds'' \<mapsto> [], ''statuses'' \<mapsto> [],
      ''serviceCode'' \<mapsto> [], ''search'' \<mapsto> []]"




definition exampleResidents :: "Resident list" where
  "exampleResidents = [\<lparr> Resident.id' = ''r1'', fundingInformation = [exampleContract] \<rparr>]"

text \<open>
  A validation of partial updates that knows the amount only, with the bounds of the
  creation schema, and an update of the amount of contract \<open>c1\<close>.
\<close>

definition noUpdates :: FundingUpdates where
  "noUpdates =
     \<lparr> FundingUpdates.type = None, FundingUpdates.amount = None,
       FundingUpdates.startDate = None, FundingUpdates.endDate = None,
       FundingUpdates.description = None, FundingUpdates.isActive = None,
       FundingUpdates.drawdownRate = None, FundingUpdates.autoDrawdown = None,
       FundingUpdates.renewalDate = None \<rparr>"

definition exampleValidate :: "body \<Rightarrow> ZodIssue list + FundingUpdates" where
  "exampleValidate b =
     (case safeParse
             (z_optional
                (\<lambda>v. check (\<lambda>n. \<not> js_gt n (Num (99999999 / 100)))
                       (issue ''too_big'' [''amount'']
                          (Some ''Funding amount must be less than $1,000,000''))
                       (check (\<lambda>n. \<not> js_lt n (Num 0))
                          (issue ''too_small'' [''amount'']
                             (Some ''Funding amount must be positive''))
                          (z_number [''amount''] v)))
                (b ''amount'')) of
        Inl issues \<Rightarrow> Inl issues
      | Inr a \<Rightarrow> Inr (noUpdates\<lparr>FundingUpdates.amount := a\<rparr>))"

definition exampleUpdateBody :: "number \<Rightarrow> body" where
  "exampleUpdateBody n = [''fundingId'' \<mapsto> JStr ''c1'', ''amount'' \<mapsto> JNum n]"





text \<open>
  The example repository with one more draft, of quantity \<open>Infinity\<close> at the unit price 0,
  whose amount is \<open>NaN\<close>, and the example operations followed by the post of that draft.
\<close>

definition wholeRepository :: Repository where
  "wholeRepository =
     \<lparr> fundingRecords = [exampleContract],
       transactions = transactions exampleRepository
                        @ [exampleTransaction ''t4'' PosInf (Num 0)] \<rparr>"

definition wholeOperations :: "operation list" where
  "wholeOperations = exampleOperations @ [Post ''t4'' ''current-user'' 1704240000000]"


section \<open>Repository lookups and the steps of the workflow\<close>

lemma find_replaceFunding:
  "find (\<lambda>x. FundingRecord.id' x = cid) (replaceFunding f xs)
     = (if cid = FundingRecord.id' f then Some f else find (\<lambda>x. FundingRecord.id' x = cid) xs)"
  by (induction xs) auto

lemma getFundingRecord_save:
  "getFundingRecord (saveFundingRecord f repo) cid
     = (if cid = FundingRecord.id' f then Some f else getFundingRecord repo cid)"
  by (simp add: getFundingRecord_def saveFundingRecord_def find_replaceFunding)

lemma getFundingRecord_saveTransaction [simp]:
  "getFundingRecord (saveTransaction t repo) cid = getFundingRecord repo cid"
  by (simp add: getFundingRecord_def saveTransaction_def)

lemma getFundingRecord_id:
  "getFundingRecord repo cid = Some f \<Longrightarrow> FundingRecord.id' f = cid"
  by (auto simp: getFundingRecord_def find_Some_iff)

lemma postedValue_Cons [simp]:
  "postedValue cid (x # xs) = contribution cid x + postedValue cid xs"
  by (simp add: postedValue_def contribution_def)

lemma postedValue_Nil [simp]: "postedValue cid [] = 0"
  by (simp add: postedValue_def)








section \<open>The posting workflow on the example\<close>

text \<open>
  The scenario of the specification, run: the balance of the contract is 1000, 700 after
  the first post, still 700 after the rejected second post, and 1000 after the void.
\<close>

lemma example_balances:
  "map (\<lambda>r. map_option FundingRecord.currentBalance (getFundingRecord r ''c1''))
     (states exampleRepository exampleOperations)
   = [Some (Num 1000), Some (Num 700), Some (Num 700), Some (Num 1000)]"
  by (simp add: exampleRepository_def exampleOperations_def exampleContract_def
      exampleTransaction_def postTransaction_def voidTransaction_def getTransaction_def
      getFundingRecord_def saveFundingRecord_def saveTransaction_def balancePreview_def
      js_sub_def js_ge_def Let_def)

section \<open>Rounding to doubles\<close>

text \<open>
  A whole number below \<open>2^53\<close> in magnitude is a double, so a sum or a difference of whole
  numbers that stays below \<open>2^53\<close> is exact.
\<close>

lemma bitLength_bounds:
  "0 < n \<Longrightarrow> 2 ^ (bitLength n - 1) \<le> n \<and> n < 2 ^ bitLength n"
proof (induction n rule: bitLength.induct)
  case (1 n)
  show ?case
  proof (cases "n div 2 = 0")
    case True
    with "1.prems" have "n = 1" by (auto simp: div_eq_0_iff)
    then show ?thesis
      by (simp add: bitLength.simps[of "Suc 0"] bitLength.simps[of 0])
  next
    case False
    then have pos: "0 < n div 2" by simp
    from "1.IH"[OF _ pos] "1.prems"
    have ih: "2 ^ (bitLength (n div 2) - 1) \<le> n div 2" "n div 2 < 2 ^ bitLength (n div 2)"
      by simp_all
    have bl: "bitLength n = Suc (bitLength (n div 2))"
      using "1.prems" by (subst bitLength.simps) simp
    have blpos: "0 < bitLength (n div 2)"
      using pos by (subst bitLength.simps) simp
    then have "(2::nat) ^ bitLength (n div 2) = 2 * 2 ^ (bitLength (n div 2) - 1)"
      by (cases "bitLength (n div 2)") simp_all
    with ih show ?thesis
      by (simp add: bl) arith
  qed
qed

lemma roundHalfEven_of_int [simp]: "roundHalfEven (of_int m) = m"
  by (simp add: roundHalfEven_def)


lemma exponent_ge1:
  assumes "1 \<le> x"
  shows "0 \<le> exponent x" and "2 ^ nat (exponent x) \<le> x" and "x < 2 ^ (nat (exponent x) + 1)"
proof -
  let ?n = "nat \<lfloor>x\<rfloor>"
  have fl: "1 \<le> \<lfloor>x\<rfloor>" using assms by simp
  then have pos: "0 < ?n" by simp
  from bitLength_bounds[OF pos]
  have b: "2 ^ (bitLength ?n - 1) \<le> ?n" "?n < 2 ^ bitLength ?n" by simp_all
  have blpos: "0 < bitLength ?n"
    using pos by (subst bitLength.simps) simp
  have e: "exponent x = int (bitLength ?n) - 1"
    using assms by (simp add: exponent_def)
  then show "0 \<le> exponent x" using blpos by simp
  have ne: "nat (exponent x) = bitLength ?n - 1"
    using e blpos by simp
  have "(2::rat) ^ (bitLength ?n - 1) = of_nat (2 ^ (bitLength ?n - 1))" by simp
  also have "\<dots> \<le> of_nat ?n" using b(1) by (simp only: of_nat_le_iff)
  also have "\<dots> = of_int \<lfloor>x\<rfloor>" using fl by simp
  also have "\<dots> \<le> x" by simp
  finally show "2 ^ nat (exponent x) \<le> x" by (simp add: ne)
  have "\<lfloor>x\<rfloor> + 1 \<le> int (2 ^ bitLength ?n)"
    using b(2) fl by simp
  then have "of_int (\<lfloor>x\<rfloor> + 1) \<le> (of_int (int (2 ^ bitLength ?n)) :: rat)"
    by (simp only: of_int_le_iff)
  moreover have "x < of_int (\<lfloor>x\<rfloor> + 1)" using floor_correct[of x] by blast
  ultimately have "x < 2 ^ bitLength ?n" by simp
  moreover have "nat (exponent x) + 1 = bitLength ?n" using ne blpos by simp
  ultimately show "x < 2 ^ (nat (exponent x) + 1)" by simp
qed

lemma exponent_le52:
  assumes "1 \<le> x" and "x < 2 ^ 53"
  shows "exponent x \<le> 52"
proof (rule ccontr)
  assume "\<not> exponent x \<le> 52"
  then have "53 \<le> nat (exponent x)" by simp
  then have "(2::rat) ^ 53 \<le> 2 ^ nat (exponent x)"
    by (intro power_increasing) simp_all
  with exponent_ge1(2)[OF assms(1)] assms(2) show False by simp
qed

lemma binary64_whole:
  assumes "\<bar>n\<bar> < 2 ^ 53"
  shows "binary64 (of_int n) = Num (of_int n)"
proof (cases "n = 0")
  case True
  then show ?thesis by (simp add: binary64_def)
next
  case False
  let ?x = "of_int n :: rat"
  let ?e = "exponent \<bar>?x\<bar>"
  have x1: "1 \<le> \<bar>?x\<bar>" using False by (simp flip: of_int_abs)
  have xlt: "\<bar>?x\<bar> < 2 ^ 53"
  proof -
    have "(of_int \<bar>n\<bar> :: rat) < of_int (2 ^ 53)" using assms by (simp only: of_int_less_iff)
    then show ?thesis by simp
  qed
  have e0: "0 \<le> ?e" and e52: "?e \<le> 52"
    using exponent_ge1(1)[OF x1] exponent_le52[OF x1 xlt] by simp_all
  then have mx: "max ?e (- 1022) = ?e" by simp
  let ?k = "nat (52 - ?e)"
  have q: "(2::rat) powi (?e - 52) = 1 / 2 ^ ?k"
  proof -
    have "?e - 52 = - int ?k" using e52 by simp
    then have "(2::rat) powi (?e - 52) = 2 powi (- int ?k)" by simp
    also have "\<dots> = inverse (2 powi int ?k)" by (rule power_int_minus)
    also have "\<dots> = 1 / 2 ^ ?k" by (simp only: power_int_of_nat inverse_eq_divide)
    finally show ?thesis .
  qed
  have m: "?x / (1 / 2 ^ ?k) = of_int (n * 2 ^ ?k)" by simp
  have r: "of_int (roundHalfEven (?x / (1 / 2 ^ ?k))) * (1 / 2 ^ ?k) = ?x"
    by (simp only: m roundHalfEven_of_int) simp
  have big: "\<not> (2::rat) powi 1024 \<le> \<bar>?x\<bar>"
  proof -
    have "(2::rat) ^ 53 \<le> 2 ^ 1024" by (intro power_increasing) simp_all
    with xlt have "\<bar>?x\<bar> < 2 ^ 1024" by simp
    then show ?thesis by simp
  qed
  have nz: "?x \<noteq> 0" using False by simp
  show ?thesis
    unfolding binary64_def Let_def mx q r
    using nz big by (simp only: if_False)
qed


lemma binary64_Ints:
  assumes "r \<in> \<int>" and "\<bar>r\<bar> < 2 ^ 53"
  shows "binary64 r = Num r"
proof -
  from assms(1) obtain n where r: "r = of_int n" by (auto elim: Ints_cases)
  have "(of_int \<bar>n\<bar> :: rat) < of_int (2 ^ 53)" using assms(2) by (simp add: r)
  then have "\<bar>n\<bar> < 2 ^ 53" by (simp only: of_int_less_iff)
  then show ?thesis unfolding r by (rule binary64_whole)
qed



lemma magnitude_nonneg [simp]: "0 \<le> magnitude n"
  by (cases n) simp_all


lemma add64_exact:
  assumes "a \<in> \<int>" and "b \<in> \<int>" and "\<bar>a + b\<bar> < 2 ^ 53"
  shows "add64 (Num a) (Num b) = Num (a + b)"
  using assms by (simp add: binary64_Ints)

lemma sub64_exact:
  assumes "a \<in> \<int>" and "b \<in> \<int>" and "\<bar>a - b\<bar> < 2 ^ 53"
  shows "sub64 (Num a) (Num b) = Num (a - b)"
  using assms by (simp add: sub64_def binary64_Ints)


















section \<open>Balance conservation\<close>

















text \<open>
  The run on this repository: 1000, 700 after the first post, 700 after the rejected
  second post, 1000 after the void, and 1000 after the rejected post of the draft whose
  amount is \<open>NaN\<close>.
\<close>

lemma whole_example_balances:
  "map (\<lambda>r. map_option FundingRecord.currentBalance (getFundingRecord r ''c1''))
     (states64 wholeRepository wholeOperations)
   = [Some (Num 1000), Some (Num 700), Some (Num 700), Some (Num 1000), Some (Num 1000)]"
proof -
  have s: "sub64 (Num 1000) (Num 300) = Num 700" "sub64 (Num 700) (Num 800) = Num (- 100)"
    "add64 (Num 700) (Num 300) = Num 1000" "sub64 (Num 1000) NaN = NaN"
    using sub64_exact[of 1000 300] sub64_exact[of 700 800] add64_exact[of 700 300]
    by (simp_all add: sub64_def)
  show ?thesis
    by (simp add: wholeRepository_def wholeOperations_def exampleRepository_def
        exampleOperations_def exampleContract_def exampleTransaction_def postTransaction64_def
        voidTransaction64_def getTransaction_def getFundingRecord_def saveFundingRecord_def
        saveTransaction_def Let_def js_ge_def s del: add64.simps)
qed






section \<open>Balance preview\<close>

lemma toFixed2_example: "toFixed2 (Num 200) = ''200.00''"
proof -
  have "\<lfloor>(40001::rat) / 2\<rfloor> = 20000" by (simp add: floor_eq_iff)
  then show ?thesis
    by (simp add: toFixed2_def Let_def digits.simps[of 200] digits.simps[of 20] digits.simps[of 2])
qed

text \<open>
  C3. For a funding record that exists and any amount, \<open>getTransactionBalancePreview\<close>
  returns a preview with \<open>remainingAfterPost = currentBalance - transactionAmount\<close> and
  \<open>canPost = (remainingAfterPost >= 0)\<close>, and the warning message is set whenever
  \<open>canPost\<close> is false.
\<close>

theorem preview_correct:
  assumes "getFundingRecord repo cid = Some f"
  shows "\<exists>p. getTransactionBalancePreview repo cid amt = Inr p
     \<and> TransactionBalancePreview.currentBalance p = FundingRecord.currentBalance f
     \<and> transactionAmount p = amt
     \<and> remainingAfterPost p = js_sub (FundingRecord.currentBalance f) amt
     \<and> canPost p = js_ge (remainingAfterPost p) (Num 0)
     \<and> (\<not> canPost p \<longrightarrow> warningMessage p \<noteq> None)"
  using assms by (simp add: getTransactionBalancePreview_def balancePreview_def Let_def)

lemma example_lookup: "getFundingRecord exampleRepository ''c1'' = Some exampleContract"
  by (simp add: getFundingRecord_def exampleRepository_def exampleContract_def)

theorem preview_correct_witness:
  "getFundingRecord exampleRepository ''c1'' = Some exampleContract
   \<and> (\<exists>p. getTransactionBalancePreview exampleRepository ''c1'' (Num 1200) = Inr p
     \<and> remainingAfterPost p = Num (- 200) \<and> \<not> canPost p \<and> warningMessage p \<noteq> None)"
  using preview_correct[OF example_lookup, of "Num 1200"] example_lookup
  by (auto simp: exampleContract_def js_sub_def js_ge_def)

section \<open>Posting beyond the balance\<close>

lemma js_gt_not_canPost: "js_gt amt bal \<Longrightarrow> \<not> js_ge (js_sub bal amt) (Num 0)"
  by (cases amt; cases bal) (auto simp: js_gt_def js_ge_def js_sub_def)

text \<open>
  C2. For a draft transaction whose contract exists: if its amount exceeds the contract's
  current balance, post fails with \<open>InsufficientBalanceError\<close> and the repository, so the
  balance, is unchanged; and whenever post succeeds, the balance it leaves on the
  contract is not negative.
\<close>

theorem post_insufficient_balance:
  assumes gt: "getTransaction repo tid = Some t"
    and st: "Transaction.status t = draft"
    and gf: "getFundingRecord repo (Transaction.contractId t) = Some f"
  shows "(js_gt (Transaction.amount t) (FundingRecord.currentBalance f) \<longrightarrow>
            postTransaction repo tid user now = Inl InsufficientBalanceError
            \<and> applyOperation repo (Post tid user now) = repo)
       \<and> (\<forall>repo'. postTransaction repo tid user now = Inr repo' \<longrightarrow>
            (\<exists>f'. getFundingRecord repo' (Transaction.contractId t) = Some f'
                \<and> js_ge (FundingRecord.currentBalance f') (Num 0)))"
proof (intro conjI impI allI)
  assume over: "js_gt (Transaction.amount t) (FundingRecord.currentBalance f)"
  have "\<not> canPost (balancePreview f (Transaction.amount t))"
    using js_gt_not_canPost[OF over] by (simp add: balancePreview_def Let_def)
  then show post: "postTransaction repo tid user now = Inl InsufficientBalanceError"
    using gt st gf by (simp add: postTransaction_def Let_def)
  then show "applyOperation repo (Post tid user now) = repo" by simp
next
  fix repo'
  assume post: "postTransaction repo tid user now = Inr repo'"
  have idf: "FundingRecord.id' f = Transaction.contractId t"
    using gf by (rule getFundingRecord_id)
  from post gt st gf
  have ok: "canPost (balancePreview f (Transaction.amount t))"
    and repo': "repo' = saveFundingRecord
               (f\<lparr>FundingRecord.currentBalance :=
                    js_sub (FundingRecord.currentBalance f) (Transaction.amount t)\<rparr>)
               (saveTransaction (t\<lparr>status := posted, postedAt := Some now, postedBy := Some user\<rparr>) repo)"
    by (auto simp: postTransaction_def Let_def split: if_splits)
  from ok have "js_ge (js_sub (FundingRecord.currentBalance f) (Transaction.amount t)) (Num 0)"
    by (simp add: balancePreview_def Let_def)
  then show "\<exists>f'. getFundingRecord repo' (Transaction.contractId t) = Some f'
                \<and> js_ge (FundingRecord.currentBalance f') (Num 0)"
    by (simp add: repo' getFundingRecord_save idf)
qed


lemma example_t3:
  "getTransaction exampleRepository ''t3'' = Some (exampleTransaction ''t3'' (Num 8) (Num 150))"
  by (simp add: getTransaction_def exampleRepository_def exampleTransaction_def)

lemma example_t1:
  "getTransaction exampleRepository ''t1'' = Some (exampleTransaction ''t1'' (Num 2) (Num 150))"
  by (simp add: getTransaction_def exampleRepository_def exampleTransaction_def)

lemma exampleTransaction_sel:
  "Transaction.status (exampleTransaction tid q p) = draft"
  "Transaction.contractId (exampleTransaction tid q p) = ''c1''"
  "Transaction.amount (exampleTransaction tid q p) = js_mul q p"
  by (simp_all add: exampleTransaction_def)

theorem post_insufficient_balance_witness:
  "getTransaction exampleRepository ''t3'' = Some (exampleTransaction ''t3'' (Num 8) (Num 150))
   \<and> Transaction.status (exampleTransaction ''t3'' (Num 8) (Num 150)) = draft
   \<and> getFundingRecord exampleRepository ''c1'' = Some exampleContract
   \<and> js_gt (Transaction.amount (exampleTransaction ''t3'' (Num 8) (Num 150)))
        (FundingRecord.currentBalance exampleContract)
   \<and> postTransaction exampleRepository ''t3'' ''current-user'' 0 = Inl InsufficientBalanceError
   \<and> applyOperation exampleRepository (Post ''t3'' ''current-user'' 0) = exampleRepository
   \<and> (\<exists>repo' f'. postTransaction exampleRepository ''t1'' ''current-user'' 0 = Inr repo'
         \<and> getFundingRecord repo' ''c1'' = Some f'
         \<and> js_ge (FundingRecord.currentBalance f') (Num 0))"
proof -
  have gf: "getFundingRecord exampleRepository
              (Transaction.contractId (exampleTransaction tid q p)) = Some exampleContract" for tid q p
    by (simp add: exampleTransaction_sel example_lookup)
  have over: "js_gt (Transaction.amount (exampleTransaction ''t3'' (Num 8) (Num 150)))
        (FundingRecord.currentBalance exampleContract)"
    by (simp add: exampleTransaction_sel exampleContract_def js_gt_def)
  have posts: "\<exists>repo'. postTransaction exampleRepository ''t1'' ''current-user'' 0 = Inr repo'"
    by (simp add: postTransaction_def example_t1 exampleTransaction_sel example_lookup
        balancePreview_def Let_def exampleContract_def js_sub_def js_ge_def)
  from post_insufficient_balance[OF example_t3 exampleTransaction_sel(1) gf,
      of "''current-user''" 0]
    post_insufficient_balance[OF example_t1 exampleTransaction_sel(1) gf,
      of "''current-user''" 0]
    over posts example_t3 example_lookup
  show ?thesis
    by (auto simp: exampleTransaction_sel)
qed

section \<open>Schema validation\<close>

text \<open>What a parse without issue says about its input, schema by schema.\<close>

lemmas schema_defs = createTransactionSchema_def z_field_def check_def z_string_def
  z_number_def z_coerce_date_def newDate_def z_optional_def issue_def safeParse_def Let_def

lemma example_input:
  "safeParse (createTransactionSchema exampleDateParse exampleBody)
     = Inr \<lparr> TransactionCreateInput.residentId = ''r1'',
             TransactionCreateInput.contractId = ''c1'',
             TransactionCreateInput.occurredAt = 1704067200000,
             TransactionCreateInput.serviceCode = ''SIL_SUPPORT'',
             TransactionCreateInput.description = None,
             TransactionCreateInput.quantity = Num 2,
             TransactionCreateInput.unitPrice = Num 150,
             TransactionCreateInput.amount = None,
             TransactionCreateInput.note' = None \<rparr>"
  by (simp add: schema_defs exampleBody_def exampleDateParse_def)

lemma example_input_zero:
  "safeParse (createTransactionSchema exampleDateParse (exampleBody(''amount'' \<mapsto> JNum (Num 0))))
     = Inr \<lparr> TransactionCreateInput.residentId = ''r1'',
             TransactionCreateInput.contractId = ''c1'',
             TransactionCreateInput.occurredAt = 1704067200000,
             TransactionCreateInput.serviceCode = ''SIL_SUPPORT'',
             TransactionCreateInput.description = None,
             TransactionCreateInput.quantity = Num 2,
             TransactionCreateInput.unitPrice = Num 150,
             TransactionCreateInput.amount = Some (Num 0),
             TransactionCreateInput.note' = None \<rparr>"
  by (simp add: schema_defs exampleBody_def exampleDateParse_def)


lemma safeParse_Inr: "safeParse r = Inr v \<longleftrightarrow> r = ([], Some v)"
  by (cases r) (auto simp: safeParse_def split: list.splits option.splits)

lemma z_field_valid:
  "z_field obj r = ([], Some v) \<longleftrightarrow> (\<exists>f x. obj = ([], Some f) \<and> r = ([], Some x) \<and> v = f x)"
  by (cases obj; cases r) (auto simp: z_field_def split: option.splits)

lemma check_valid: "check ok i r = ([], Some v) \<longleftrightarrow> r = ([], Some v) \<and> ok v"
  by (cases r) (auto simp: check_def split: option.splits)

lemma z_string_valid: "z_string p x = ([], Some s) \<longleftrightarrow> x = Some (JStr s)"
  by (auto simp: z_string_def issue_def split: option.splits json.splits)

lemma z_number_valid: "z_number p x = ([], Some n) \<longleftrightarrow> x = Some (JNum n) \<and> n \<noteq> NaN"
  by (auto simp: z_number_def issue_def split: option.splits json.splits)

lemma z_coerce_date_valid:
  "z_coerce_date dp p x = ([], Some d) \<longleftrightarrow> newDate dp x = Some d"
  by (auto simp: z_coerce_date_def issue_def split: option.splits)

lemma z_optional_valid:
  "z_optional schema x = ([], Some v) \<longleftrightarrow>
     (x = None \<and> v = None) \<or> (x \<noteq> None \<and> (\<exists>y. schema x = ([], Some y) \<and> v = Some y))"
  by (cases "schema x") (auto simp: z_optional_def split: option.splits)

lemma createTransactionSchema_valid:
  assumes "safeParse (createTransactionSchema dp b) = Inr input"
  shows "b ''residentId'' = Some (JStr (TransactionCreateInput.residentId input))"
    and "TransactionCreateInput.residentId input \<noteq> []"
    and "b ''contractId'' = Some (JStr (TransactionCreateInput.contractId input))"
    and "TransactionCreateInput.contractId input \<noteq> []"
    and "newDate dp (b ''occurredAt'') = Some (TransactionCreateInput.occurredAt input)"
    and "b ''serviceCode'' = Some (JStr (TransactionCreateInput.serviceCode input))"
    and "TransactionCreateInput.serviceCode input \<noteq> []"
    and "b ''quantity'' = Some (JNum (TransactionCreateInput.quantity input))"
    and "js_gt (TransactionCreateInput.quantity input) (Num 0)"
    and "b ''unitPrice'' = Some (JNum (TransactionCreateInput.unitPrice input))"
    and "js_ge (TransactionCreateInput.unitPrice input) (Num 0)"
    and "b ''amount'' = map_option JNum (TransactionCreateInput.amount input)"
    and "\<And>a. TransactionCreateInput.amount input = Some a \<Longrightarrow> js_ge a (Num 0)"
proof -
  have nonneg: "n \<noteq> NaN \<Longrightarrow> \<not> js_lt n (Num 0) \<Longrightarrow> js_ge n (Num 0)" for n
    by (cases n) (auto simp: js_ge_def)
  have pos: "n \<noteq> NaN \<Longrightarrow> \<not> js_le n (Num 0) \<Longrightarrow> js_gt n (Num 0)" for n
    by (cases n) (auto simp: js_gt_def)
  from assms have *: "createTransactionSchema dp b = ([], Some input)"
    by (simp add: safeParse_Inr)
  then obtain x1 x2 x3 x4 x5 x6 x7 x8 x9 where
    f1: "check (\<lambda>s. 1 \<le> length s)
           (issue ''too_small'' [''residentId''] (Some ''Resident ID is required''))
           (z_string [''residentId''] (b ''residentId'')) = ([], Some x1)" and
    f2: "check (\<lambda>s. 1 \<le> length s)
           (issue ''too_small'' [''contractId''] (Some ''Contract ID is required''))
           (z_string [''contractId''] (b ''contractId'')) = ([], Some x2)" and
    f3: "z_coerce_date dp [''occurredAt''] (b ''occurredAt'') = ([], Some x3)" and
    f4: "check (\<lambda>s. 1 \<le> length s)
           (issue ''too_small'' [''serviceCode''] (Some ''Service code is required''))
           (z_string [''serviceCode''] (b ''serviceCode'')) = ([], Some x4)" and
    f5: "z_optional (z_string [''description'']) (b ''description'') = ([], Some x5)" and
    f6: "check (\<lambda>n. \<not> js_le n (Num 0))
           (issue ''too_small'' [''quantity''] (Some ''Quantity must be positive''))
           (z_number [''quantity''] (b ''quantity'')) = ([], Some x6)" and
    f7: "check (\<lambda>n. \<not> js_lt n (Num 0))
           (issue ''too_small'' [''unitPrice''] (Some ''Unit price must be non-negative''))
           (z_number [''unitPrice''] (b ''unitPrice'')) = ([], Some x7)" and
    f8: "z_optional
           (\<lambda>v. check (\<lambda>n. \<not> js_lt n (Num 0)) (issue ''too_small'' [''amount''] None)
                  (z_number [''amount''] v))
           (b ''amount'') = ([], Some x8)" and
    f9: "z_optional (z_string [''note'']) (b ''note'') = ([], Some x9)" and
    input: "input = \<lparr> TransactionCreateInput.residentId = x1,
                    TransactionCreateInput.contractId = x2,
                    TransactionCreateInput.occurredAt = x3,
                    TransactionCreateInput.serviceCode = x4,
                    TransactionCreateInput.description = x5,
                    TransactionCreateInput.quantity = x6,
                    TransactionCreateInput.unitPrice = x7,
                    TransactionCreateInput.amount = x8,
                    TransactionCreateInput.note' = x9 \<rparr>"
    unfolding createTransactionSchema_def Let_def z_field_valid by blast
  show "b ''residentId'' = Some (JStr (TransactionCreateInput.residentId input))"
    and "TransactionCreateInput.residentId input \<noteq> []"
    using f1 by (auto simp: input check_valid z_string_valid)
  show "b ''contractId'' = Some (JStr (TransactionCreateInput.contractId input))"
    and "TransactionCreateInput.contractId input \<noteq> []"
    using f2 by (auto simp: input check_valid z_string_valid)
  show "newDate dp (b ''occurredAt'') = Some (TransactionCreateInput.occurredAt input)"
    using f3 by (simp add: input z_coerce_date_valid)
  show "b ''serviceCode'' = Some (JStr (TransactionCreateInput.serviceCode input))"
    and "TransactionCreateInput.serviceCode input \<noteq> []"
    using f4 by (auto simp: input check_valid z_string_valid)
  show "b ''quantity'' = Some (JNum (TransactionCreateInput.quantity input))"
    and "js_gt (TransactionCreateInput.quantity input) (Num 0)"
    using f6 pos by (auto simp: input check_valid z_number_valid)
  show "b ''unitPrice'' = Some (JNum (TransactionCreateInput.unitPrice input))"
    and "js_ge (TransactionCreateInput.unitPrice input) (Num 0)"
    using f7 nonneg by (auto simp: input check_valid z_number_valid)
  show "b ''amount'' = map_option JNum (TransactionCreateInput.amount input)"
    using f8 by (auto simp: input z_optional_valid check_valid z_number_valid)
  show "\<And>a. TransactionCreateInput.amount input = Some a \<Longrightarrow> js_ge a (Num 0)"
    using f8 nonneg by (auto simp: input z_optional_valid check_valid z_number_valid)
qed

section \<open>Creating a transaction\<close>

text \<open>
  The amount handed to the balance preview is the product when no amount is supplied,
  and the supplied amount when that is truthy.
\<close>

lemma previewAmount_absent:
  "TransactionCreateInput.amount input = None \<Longrightarrow>
   previewAmount input
     = js_mul (TransactionCreateInput.quantity input) (TransactionCreateInput.unitPrice input)"
  by (simp add: previewAmount_def)

lemma previewAmount_supplied:
  "TransactionCreateInput.amount input = Some a \<Longrightarrow> truthy_number a \<Longrightarrow>
   previewAmount input = a"
  by (simp add: previewAmount_def)

lemma example_preview:
  "getTransactionBalancePreview exampleRepository ''c1'' amt = Inr (balancePreview exampleContract amt)"
  by (simp add: getTransactionBalancePreview_def example_lookup)

text \<open>
  C4. The supplied amount does not always take precedence: a body with quantity 2, unit
  price 150 and an explicit amount of 0 passes the schema with amount 0, and the handler
  asks the balance preview for 300, the product, because \<open>0\<close> is falsy on the left of
  \<open>||\<close>. The response of the handler carries a preview for 300.
\<close>

theorem preview_amount_explicit_zero:
  "\<exists>input t p.
     safeParse (createTransactionSchema exampleDateParse (exampleBody(''amount'' \<mapsto> JNum (Num 0))))
       = Inr input
     \<and> TransactionCreateInput.amount input = Some (Num 0)
     \<and> js_mul (TransactionCreateInput.quantity input) (TransactionCreateInput.unitPrice input)
         = Num 300
     \<and> previewAmount input = Num 300
     \<and> POST_transactions (getTransactionBalancePreview exampleRepository)
           exampleCreateTransaction exampleDateParse (exampleBody(''amount'' \<mapsto> JNum (Num 0)))
         = Created t p
     \<and> transactionAmount p = Num 300"
  by (simp add: POST_transactions_def example_input_zero previewAmount_def example_preview
      exampleCreateTransaction_def balancePreview_def Let_def)

text \<open>
  C9. For every body that passes the creation schema, when the preview is computed and
  the transaction is stored, the handler answers 201 with that transaction and that
  preview, whatever the preview says: \<open>canPost\<close> is never read. So a creation of 1200
  against a balance of 1000 is answered with the draft transaction and a preview whose
  \<open>canPost\<close> is false.
\<close>

theorem creation_ignores_preview:
  assumes "safeParse (createTransactionSchema dateParse b) = Inr input"
    and "getPreview (TransactionCreateInput.contractId input) (previewAmount input) = Inr p"
    and "createTransaction input ''current-user'' = Inr t"
  shows "POST_transactions getPreview createTransaction dateParse b = Created t p"
  using assms by (simp add: POST_transactions_def)

lemma example_input_large:
  "safeParse (createTransactionSchema exampleDateParse (exampleBody(''quantity'' \<mapsto> JNum (Num 8))))
     = Inr \<lparr> TransactionCreateInput.residentId = ''r1'',
             TransactionCreateInput.contractId = ''c1'',
             TransactionCreateInput.occurredAt = 1704067200000,
             TransactionCreateInput.serviceCode = ''SIL_SUPPORT'',
             TransactionCreateInput.description = None,
             TransactionCreateInput.quantity = Num 8,
             TransactionCreateInput.unitPrice = Num 150,
             TransactionCreateInput.amount = None,
             TransactionCreateInput.note' = None \<rparr>"
  by (simp add: schema_defs exampleBody_def exampleDateParse_def)

theorem creation_ignores_preview_witness:
  "\<exists>input p t.
     safeParse (createTransactionSchema exampleDateParse (exampleBody(''quantity'' \<mapsto> JNum (Num 8))))
       = Inr input
     \<and> getTransactionBalancePreview exampleRepository (TransactionCreateInput.contractId input)
           (previewAmount input) = Inr p
     \<and> exampleCreateTransaction input ''current-user'' = Inr t
     \<and> \<not> canPost p
     \<and> Transaction.status t = draft
     \<and> POST_transactions (getTransactionBalancePreview exampleRepository)
           exampleCreateTransaction exampleDateParse (exampleBody(''quantity'' \<mapsto> JNum (Num 8)))
         = Created t p"
proof -
  let ?input = "\<lparr> TransactionCreateInput.residentId = ''r1'',
             TransactionCreateInput.contractId = ''c1'',
             TransactionCreateInput.occurredAt = 1704067200000,
             TransactionCreateInput.serviceCode = ''SIL_SUPPORT'',
             TransactionCreateInput.description = None,
             TransactionCreateInput.quantity = Num 8,
             TransactionCreateInput.unitPrice = Num 150,
             TransactionCreateInput.amount = None,
             TransactionCreateInput.note' = None \<rparr>"
  let ?p = "balancePreview exampleContract (Num 1200)"
  obtain t where t: "exampleCreateTransaction ?input ''current-user'' = Inr t"
    and draft: "Transaction.status t = draft"
    by (simp add: exampleCreateTransaction_def)
  have p: "getTransactionBalancePreview exampleRepository (TransactionCreateInput.contractId ?input)
             (previewAmount ?input) = Inr ?p"
    by (simp add: example_preview previewAmount_def)
  have no: "\<not> canPost ?p"
    by (simp add: balancePreview_def Let_def exampleContract_def js_sub_def js_ge_def)
  from creation_ignores_preview
         [where getPreview = "getTransactionBalancePreview exampleRepository"
            and createTransaction = exampleCreateTransaction,
          OF example_input_large p t]
       example_input_large p t no draft
  show ?thesis by blast
qed

text \<open>
  C5, as stated, fails: \<open>FOO\<close> is not one of the common service codes, and a body with
  that service code passes the creation schema and is answered 201.
\<close>

theorem unknown_service_code_accepted:
  "''FOO'' \<notin> set COMMON_SERVICE_CODES
   \<and> (\<exists>input t p.
         safeParse (createTransactionSchema exampleDateParse
                      (exampleBody(''serviceCode'' \<mapsto> JStr ''FOO''))) = Inr input
         \<and> TransactionCreateInput.serviceCode input = ''FOO''
         \<and> POST_transactions (getTransactionBalancePreview exampleRepository)
              exampleCreateTransaction exampleDateParse
              (exampleBody(''serviceCode'' \<mapsto> JStr ''FOO''))
            = Created t p)"
  by (simp add: COMMON_SERVICE_CODES_def POST_transactions_def schema_defs exampleBody_def
      exampleDateParse_def previewAmount_def example_preview exampleCreateTransaction_def)

text \<open>
  C5, amended. For every body that passes the creation schema, the service code is the
  string of the body and is not empty. Membership in the common service codes is not
  checked.
\<close>

theorem service_code_nonempty:
  assumes "safeParse (createTransactionSchema dateParse b) = Inr input"
  shows "b ''serviceCode'' = Some (JStr (TransactionCreateInput.serviceCode input))
       \<and> TransactionCreateInput.serviceCode input \<noteq> []"
  using createTransactionSchema_valid(6,7)[OF assms] by simp

theorem service_code_nonempty_witness:
  "\<exists>input. safeParse (createTransactionSchema exampleDateParse exampleBody) = Inr input
     \<and> exampleBody ''serviceCode'' = Some (JStr (TransactionCreateInput.serviceCode input))
     \<and> TransactionCreateInput.serviceCode input \<noteq> []"
  using service_code_nonempty[OF example_input] example_input by blast

section \<open>Listing transactions\<close>

lemmas parseInt_defs = parseInt10_def isWhiteSpace_def isDigit_def digitValue_def Let_def

lemma parseInt10_examples:
  "parseInt10 ''1'' = Num 1" "parseInt10 ''25'' = Num 25" "parseInt10 ''0'' = Num 0"
  "parseInt10 ''-5'' = Num (- 5)" "parseInt10 ''abc'' = NaN" "parseInt10 ''250'' = Num 250"
  "parseInt10 '' 12px'' = Num 12"
  by (simp_all add: parseInt_defs)

lemma Math_min_le: "Math_min a (Num 100) \<noteq> NaN \<Longrightarrow> js_le (Math_min a (Num 100)) (Num 100)"
  by (cases a) auto

lemma orDefault_missing: "x = None \<or> x = Some [] \<Longrightarrow> orDefault x d = d"
  by (auto simp: orDefault_def)

lemmas filter_defs = filtersSchema_def rawFilters_def raw_def z_field_def z_optional_def
  z_coerce_date_def newDate_def z_string_def issue_def safeParse_def Let_def

lemmas sort_defs = sortSchema_def rawSort_def z_field_def z_default_def z_enum_def orDefault_def
  issue_def safeParse_def Let_def

lemma example_sort:
  "sp ''sortField'' = None \<Longrightarrow> sp ''sortDirection'' = None \<Longrightarrow>
   safeParse (sortSchema (rawSort sp)) = Inr \<lparr> field = ''occurredAt'', direction = ''desc'' \<rparr>"
  by (simp add: sort_defs)

lemma example_filters:
  "safeParse (filtersSchema exampleDateParse (rawFilters exampleQuery))
     = Inr \<lparr> dateFrom = Some 0, dateTo = Some 0, FiltersData.residentIds = Some [],
             FiltersData.contractIds = Some [], FiltersData.houseIds = Some [],
             FiltersData.statuses = Some [], FiltersData.serviceCode = Some [],
             FiltersData.search = Some [] \<rparr>"
  by (simp add: filter_defs exampleQuery_def)

lemma example_filters_page:
  "safeParse (filtersSchema exampleDateParse
       (rawFilters (exampleQuery(''page'' \<mapsto> ''0'', ''pageSize'' \<mapsto> ''-5''))))
     = Inr \<lparr> dateFrom = Some 0, dateTo = Some 0, FiltersData.residentIds = Some [],
             FiltersData.contractIds = Some [], FiltersData.houseIds = Some [],
             FiltersData.statuses = Some [], FiltersData.serviceCode = Some [],
             FiltersData.search = Some [] \<rparr>"
  by (simp add: filter_defs exampleQuery_def)

text \<open>
  C7, as stated, fails: the query \<open>page=0&pageSize=-5\<close> passes validation and
  \<open>getTransactionsList\<close> is called with page 0 and page size -5, neither of which is at
  least 1; and \<open>pageSize=abc\<close> gives the page size \<open>NaN\<close>.
\<close>

theorem page_not_clamped:
  "\<not> js_ge (page (exampleQuery(''page'' \<mapsto> ''0'', ''pageSize'' \<mapsto> ''-5''))) (Num 1)
   \<and> \<not> js_ge (pageSize (exampleQuery(''page'' \<mapsto> ''0'', ''pageSize'' \<mapsto> ''-5''))) (Num 1)
   \<and> GET_transactions (\<lambda>f s p ps. (Inr (p, ps) :: unit + number \<times> number)) exampleDateParse
         (exampleQuery(''page'' \<mapsto> ''0'', ''pageSize'' \<mapsto> ''-5''))
       = Listed (Num 0, Num (- 5))
   \<and> pageSize (exampleQuery(''pageSize'' \<mapsto> ''abc'')) = NaN"
proof -
  have pg: "page (exampleQuery(''page'' \<mapsto> ''0'', ''pageSize'' \<mapsto> ''-5'')) = Num 0"
    by (simp add: page_def orDefault_def parseInt10_examples)
  have ps: "pageSize (exampleQuery(''page'' \<mapsto> ''0'', ''pageSize'' \<mapsto> ''-5'')) = Num (- 5)"
    by (simp add: pageSize_def orDefault_def parseInt10_examples)
  have nan: "pageSize (exampleQuery(''pageSize'' \<mapsto> ''abc'')) = NaN"
    by (simp add: pageSize_def orDefault_def parseInt10_examples)
  have srt: "safeParse (sortSchema (rawSort (exampleQuery(''page'' \<mapsto> ''0'', ''pageSize'' \<mapsto> ''-5''))))
     = Inr \<lparr> field = ''occurredAt'', direction = ''desc'' \<rparr>"
    by (rule example_sort) (simp_all add: exampleQuery_def)
  show ?thesis
    by (simp add: GET_transactions_def pg ps nan srt example_filters_page js_ge_def)
qed

text \<open>
  C7, amended. The page size used is \<open>Math.min(parseInt(pageSize), 100)\<close>: at most 100
  whenever it is a number, and 25 when the parameter is missing or empty. The page used
  is \<open>parseInt(page)\<close>, which is 1 when the parameter is missing or empty. These two
  values are what \<open>getTransactionsList\<close> receives whenever the handler lists.
\<close>

theorem page_size_upper_bound:
  "pageSize sp = Math_min (parseInt10 (orDefault (sp ''pageSize'') ''25'')) (Num 100)
   \<and> page sp = parseInt10 (orDefault (sp ''page'') ''1'')
   \<and> (pageSize sp \<noteq> NaN \<longrightarrow> js_le (pageSize sp) (Num 100))
   \<and> (sp ''pageSize'' = None \<or> sp ''pageSize'' = Some [] \<longrightarrow> pageSize sp = Num 25)
   \<and> (sp ''page'' = None \<or> sp ''page'' = Some [] \<longrightarrow> page sp = Num 1)
   \<and> (\<forall>r. GET_transactions getTransactionsList dateParse sp = Listed r \<longrightarrow>
         (\<exists>f s. getTransactionsList f s (page sp) (pageSize sp) = Inr r))"
proof (intro conjI impI allI)
  show "pageSize sp = Math_min (parseInt10 (orDefault (sp ''pageSize'') ''25'')) (Num 100)"
    by (simp add: pageSize_def)
  show "page sp = parseInt10 (orDefault (sp ''page'') ''1'')"
    by (simp add: page_def)
  show "js_le (pageSize sp) (Num 100)" if "pageSize sp \<noteq> NaN"
    using that Math_min_le by (simp add: pageSize_def)
  show "pageSize sp = Num 25" if "sp ''pageSize'' = None \<or> sp ''pageSize'' = Some []"
    using orDefault_missing[OF that] by (simp add: pageSize_def parseInt10_examples)
  show "page sp = Num 1" if "sp ''page'' = None \<or> sp ''page'' = Some []"
    using orDefault_missing[OF that] by (simp add: page_def parseInt10_examples)
  show "\<exists>f s. getTransactionsList f s (page sp) (pageSize sp) = Inr r"
    if "GET_transactions getTransactionsList dateParse sp = Listed r" for r
    using that by (auto simp: GET_transactions_def Let_def split: sum.splits)
qed

theorem page_size_upper_bound_witness:
  "pageSize (exampleQuery(''pageSize'' \<mapsto> ''250'')) = Num 100
   \<and> js_le (pageSize (exampleQuery(''pageSize'' \<mapsto> ''250''))) (Num 100)
   \<and> page (exampleQuery(''pageSize'' \<mapsto> ''250'')) = Num 1
   \<and> pageSize exampleQuery = Num 25
   \<and> GET_transactions (\<lambda>f s p ps. (Inr (p, ps) :: unit + number \<times> number)) exampleDateParse
         exampleQuery = Listed (Num 1, Num 25)"
proof -
  have a: "orDefault ((exampleQuery(''pageSize'' \<mapsto> ''250'')) ''pageSize'') ''25'' = ''250''"
    by (simp add: orDefault_def)
  have b: "(exampleQuery(''pageSize'' \<mapsto> ''250'')) ''page'' = None"
    "exampleQuery ''page'' = None" "exampleQuery ''pageSize'' = None"
    by (simp_all add: exampleQuery_def)
  have srt: "safeParse (sortSchema (rawSort exampleQuery))
     = Inr \<lparr> field = ''occurredAt'', direction = ''desc'' \<rparr>"
    by (rule example_sort) (simp_all add: exampleQuery_def)
  have lst: "GET_transactions (\<lambda>f s p ps. (Inr (p, ps) :: unit + number \<times> number)) exampleDateParse
         exampleQuery = Listed (page exampleQuery, pageSize exampleQuery)"
    by (simp add: GET_transactions_def srt example_filters)
  note A = page_size_upper_bound[of "exampleQuery(''pageSize'' \<mapsto> ''250'')"
      "\<lambda>f s p ps. (Inr (p, ps) :: unit + number \<times> number)" exampleDateParse]
  note B = page_size_upper_bound[of exampleQuery
      "\<lambda>f s p ps. (Inr (p, ps) :: unit + number \<times> number)" exampleDateParse]
  from A have "pageSize (exampleQuery(''pageSize'' \<mapsto> ''250''))
      = Math_min (parseInt10 (orDefault ((exampleQuery(''pageSize'' \<mapsto> ''250'')) ''pageSize'') ''25''))
          (Num 100)"
    by (rule conjunct1)
  then have c1: "pageSize (exampleQuery(''pageSize'' \<mapsto> ''250'')) = Num 100"
    by (simp only: a parseInt10_examples) simp
  from A c1 have c2: "js_le (pageSize (exampleQuery(''pageSize'' \<mapsto> ''250''))) (Num 100)"
    by simp
  from A b(1) have c3: "page (exampleQuery(''pageSize'' \<mapsto> ''250'')) = Num 1"
    by blast
  from B b(3) have c4: "pageSize exampleQuery = Num 25"
    by blast
  from B b(2) have c5: "page exampleQuery = Num 1"
    by blast
  from c1 c2 c3 c4 c5 lst show ?thesis
    by simp
qed


text \<open>
  The two dates of a parse without issue are always there: the raw filter of an absent
  parameter is \<open>null\<close>, which \<open>.optional()\<close> hands to \<open>z.coerce.date()\<close>, and
  \<open>new Date(null)\<close> is the epoch. So the date range is always set.
\<close>

lemma rawFilters_dates: "rawFilters sp ''dateFrom'' \<noteq> None" "rawFilters sp ''dateTo'' \<noteq> None"
  by (simp_all add: rawFilters_def raw_def split: option.splits)

lemma filtersSchema_dates:
  assumes "safeParse (filtersSchema dateParse (rawFilters sp)) = Inr d"
  shows "\<exists>from to. dateFrom d = Some from \<and> dateTo d = Some to
           \<and> newDate dateParse (raw (sp ''dateFrom'')) = Some from
           \<and> newDate dateParse (raw (sp ''dateTo'')) = Some to"
proof -
  from assms have "filtersSchema dateParse (rawFilters sp) = ([], Some d)"
    by (simp add: safeParse_Inr)
  then obtain x1 x2 where
    f1: "z_optional (z_coerce_date dateParse [''dateFrom'']) (rawFilters sp ''dateFrom'') = ([], Some x1)" and
    f2: "z_optional (z_coerce_date dateParse [''dateTo'']) (rawFilters sp ''dateTo'') = ([], Some x2)" and
    d: "dateFrom d = x1" "dateTo d = x2"
    unfolding filtersSchema_def Let_def z_field_valid by force
  have r: "rawFilters sp ''dateFrom'' = raw (sp ''dateFrom'')" "rawFilters sp ''dateTo'' = raw (sp ''dateTo'')"
    by (simp_all add: rawFilters_def)
  from f1 f2 rawFilters_dates[of sp] show ?thesis
    by (auto simp: z_optional_valid z_coerce_date_valid d r)
qed

lemma date_range_always_set:
  assumes "safeParse (filtersSchema dateParse (rawFilters sp)) = Inr d"
  shows "dateRange (filters d) \<noteq> None"
  using filtersSchema_dates[OF assms] by (auto simp: filters_def)

text \<open>
  A string filter that the query does not have is \<open>null\<close> as well, and \<open>z.string()\<close>
  refuses it: a query without any parameter is answered 400, one issue per string filter.
\<close>

lemma missing_filters_rejected:
  "GET_transactions getTransactionsList exampleDateParse Map.empty
     = InvalidFilterParameters
         (map (\<lambda>k. issue ''invalid_type'' [k] None)
            [''residentIds'', ''contractIds'', ''houseIds'', ''statuses'', ''serviceCode'',
             ''search''])"
  by (simp add: GET_transactions_def filter_defs)

lemma example_filters_from:
  "safeParse (filtersSchema exampleDateParse
       (rawFilters (exampleQuery(''dateFrom'' \<mapsto> ''2024-01-01''))))
     = Inr \<lparr> dateFrom = Some 1704067200000, dateTo = Some 0, FiltersData.residentIds = Some [],
             FiltersData.contractIds = Some [], FiltersData.houseIds = Some [],
             FiltersData.statuses = Some [], FiltersData.serviceCode = Some [],
             FiltersData.search = Some [] \<rparr>"
  by (simp add: filter_defs exampleQuery_def exampleDateParse_def)

text \<open>
  C10. A request that supplies \<open>dateFrom=2024-01-01\<close> and no \<open>dateTo\<close> (and every string
  filter, so that the validation passes) is listed with the date range from 2024-01-01 to
  the epoch: supplying one date only still imposes a date range.
\<close>

theorem date_range_with_one_date:
  "(exampleQuery(''dateFrom'' \<mapsto> ''2024-01-01'')) ''dateTo'' = None
   \<and> (\<exists>d. safeParse (filtersSchema exampleDateParse
                (rawFilters (exampleQuery(''dateFrom'' \<mapsto> ''2024-01-01'')))) = Inr d
         \<and> dateFrom d = Some 1704067200000
         \<and> dateTo d = Some 0
         \<and> dateRange (filters d) = Some (1704067200000, 0)
         \<and> GET_transactions (\<lambda>f s p ps. (Inr f :: unit + TransactionFilters)) exampleDateParse
              (exampleQuery(''dateFrom'' \<mapsto> ''2024-01-01''))
            = Listed (filters d))"
proof -
  have srt: "safeParse (sortSchema (rawSort (exampleQuery(''dateFrom'' \<mapsto> ''2024-01-01''))))
     = Inr \<lparr> field = ''occurredAt'', direction = ''desc'' \<rparr>"
    by (rule example_sort) (simp_all add: exampleQuery_def)
  show ?thesis
    by (simp add: example_filters_from GET_transactions_def srt Let_def)
       (simp add: filters_def exampleQuery_def)
qed

section \<open>Creating funding\<close>

lemma check_snd [simp]: "snd (check ok i r) = snd r"
  by (cases r) (auto simp: check_def split: option.splits)



lemma safeParse_Inl: "safeParse r = Inl is \<Longrightarrow> is = fst r"
  by (cases r) (auto simp: safeParse_def split: list.splits option.splits)


lemma z_map_valid: "z_map f r = ([], Some v) \<longleftrightarrow> (\<exists>x. r = ([], Some x) \<and> v = f x)"
  by (cases r) (auto simp: z_map_def)











section \<open>Updating funding\<close>

lemma find_replaceFunding_json:
  assumes "find (\<lambda>x. JStr (FundingRecord.id' x) = fid) xs = Some f"
    and "FundingRecord.id' f' = FundingRecord.id' f"
  shows "find (\<lambda>x. JStr (FundingRecord.id' x) = fid) (replaceFunding f' xs) = Some f'"
proof -
  have "JStr (FundingRecord.id' f) = fid"
    using assms(1) by (auto simp: find_Some_iff)
  with assms show ?thesis
    by (induction xs) (auto split: if_splits)
qed

lemma find_replaceResident:
  assumes "find (\<lambda>x. Resident.id' x = rid) xs = Some r"
    and "Resident.id' r' = Resident.id' r"
  shows "find (\<lambda>x. Resident.id' x = rid) (replaceResident r' xs) = Some r'"
proof -
  have "Resident.id' r = rid"
    using assms(1) by (auto simp: find_Some_iff)
  with assms show ?thesis
    by (induction xs) (auto split: if_splits)
qed

lemma mergeFunding_id [simp]: "FundingRecord.id' (mergeFunding f u) = FundingRecord.id' f"
  by (simp add: mergeFunding_def)

lemma updateFundingInResident_found:
  assumes r: "find (\<lambda>r. Resident.id' r = rid) store = Some r"
    and f: "find (\<lambda>f. JStr (FundingRecord.id' f) = fid) (fundingInformation r) = Some f"
  shows "\<exists>r' store'. updateFundingInResident store rid fid u = Some (r', store')
           \<and> find (\<lambda>r. Resident.id' r = rid) store' = Some r'
           \<and> find (\<lambda>f. JStr (FundingRecord.id' f) = fid) (fundingInformation r')
               = Some (mergeFunding f u)"
proof -
  let ?r' = "r\<lparr>fundingInformation := replaceFunding (mergeFunding f u) (fundingInformation r)\<rparr>"
  have 1: "updateFundingInResident store rid fid u = Some (?r', replaceResident ?r' store)"
    by (simp add: updateFundingInResident_def r f Let_def)
  have 2: "find (\<lambda>r. Resident.id' r = rid) (replaceResident ?r' store) = Some ?r'"
    by (rule find_replaceResident[OF r]) simp
  have 3: "find (\<lambda>f. JStr (FundingRecord.id' f) = fid) (fundingInformation ?r')
               = Some (mergeFunding f u)"
    using find_replaceFunding_json[OF f, of "mergeFunding f u"] by simp
  from 1 2 3 show ?thesis by blast
qed

text \<open>
  C8. When the updates of a request with a funding id do not pass the validation, the
  handler answers with the issues of the validation, which carry the paths of the
  offending fields, and the store is the one it was given, whatever the update function.
  When they pass and the resident and the funding record exist, the handler answers with
  the updated record, which is also the one the new store holds under that id: each
  field is the supplied value, or the prior value when none was supplied, and the id, the
  resident, the balance and the contract status are the prior ones.
\<close>

theorem funding_update_validated:
  "(\<forall>issues. truthy (b ''fundingId'') \<and> validate (b(''fundingId'' := None)) = Inl issues \<longrightarrow>
      PUT_funding validate updateFunding store0 rid b = (InvalidFundingInformation issues, store0))
   \<and> (\<forall>u r f. truthy (b ''fundingId'') \<and> validate (b(''fundingId'' := None)) = Inr u
          \<and> find (\<lambda>r. Resident.id' r = rid) store = Some r
          \<and> find (\<lambda>f. JStr (FundingRecord.id' f) = the (b ''fundingId'')) (fundingInformation r)
              = Some f \<longrightarrow>
          (\<exists>f' r' store'.
             PUT_funding validate updateFundingInResident store rid b
               = (FundingUpdated (Some f'), store')
             \<and> find (\<lambda>r. Resident.id' r = rid) store' = Some r'
             \<and> find (\<lambda>f. JStr (FundingRecord.id' f) = the (b ''fundingId''))
                  (fundingInformation r') = Some f'
             \<and> FundingInformation.type f'
                 = (case FundingUpdates.type u of None \<Rightarrow> FundingInformation.type f | Some v \<Rightarrow> v)
             \<and> FundingInformation.amount f'
                 = (case FundingUpdates.amount u of None \<Rightarrow> FundingInformation.amount f | Some v \<Rightarrow> v)
             \<and> FundingInformation.startDate f'
                 = (case FundingUpdates.startDate u of
                      None \<Rightarrow> FundingInformation.startDate f | Some v \<Rightarrow> v)
             \<and> FundingInformation.endDate f'
                 = (case FundingUpdates.endDate u of
                      None \<Rightarrow> FundingInformation.endDate f | Some v \<Rightarrow> Some v)
             \<and> FundingInformation.description f'
                 = (case FundingUpdates.description u of
                      None \<Rightarrow> FundingInformation.description f | Some v \<Rightarrow> Some v)
             \<and> FundingInformation.isActive f'
                 = (case FundingUpdates.isActive u of
                      None \<Rightarrow> FundingInformation.isActive f | Some v \<Rightarrow> v)
             \<and> FundingInformation.drawdownRate f'
                 = (case FundingUpdates.drawdownRate u of
                      None \<Rightarrow> FundingInformation.drawdownRate f | Some v \<Rightarrow> v)
             \<and> FundingInformation.autoDrawdown f'
                 = (case FundingUpdates.autoDrawdown u of
                      None \<Rightarrow> FundingInformation.autoDrawdown f | Some v \<Rightarrow> v)
             \<and> FundingInformation.renewalDate f'
                 = (case FundingUpdates.renewalDate u of
                      None \<Rightarrow> FundingInformation.renewalDate f | Some v \<Rightarrow> Some v)
             \<and> FundingRecord.id' f' = FundingRecord.id' f
             \<and> FundingRecord.residentId f' = FundingRecord.residentId f
             \<and> FundingRecord.currentBalance f' = FundingRecord.currentBalance f
             \<and> FundingRecord.contractStatus f' = FundingRecord.contractStatus f))"
proof (intro conjI allI impI)
  fix issues
  assume "truthy (b ''fundingId'') \<and> validate (b(''fundingId'' := None)) = Inl issues"
  then show "PUT_funding validate updateFunding store0 rid b
               = (InvalidFundingInformation issues, store0)"
    by (simp add: PUT_funding_def)
next
  fix u r f
  assume a: "truthy (b ''fundingId'') \<and> validate (b(''fundingId'' := None)) = Inr u
          \<and> find (\<lambda>r. Resident.id' r = rid) store = Some r
          \<and> find (\<lambda>f. JStr (FundingRecord.id' f) = the (b ''fundingId'')) (fundingInformation r)
              = Some f"
  then obtain r' store' where
    upd: "updateFundingInResident store rid (the (b ''fundingId'')) u = Some (r', store')" and
    fr: "find (\<lambda>r. Resident.id' r = rid) store' = Some r'" and
    ff: "find (\<lambda>f. JStr (FundingRecord.id' f) = the (b ''fundingId'')) (fundingInformation r')
           = Some (mergeFunding f u)"
    using updateFundingInResident_found[of rid store r "the (b ''fundingId'')" f u] by blast
  have put: "PUT_funding validate updateFundingInResident store rid b
               = (FundingUpdated (Some (mergeFunding f u)), store')"
    using a upd ff by (simp add: PUT_funding_def)
  have fields:
    "FundingInformation.type (mergeFunding f u)
       = (case FundingUpdates.type u of None \<Rightarrow> FundingInformation.type f | Some v \<Rightarrow> v)"
    "FundingInformation.amount (mergeFunding f u)
       = (case FundingUpdates.amount u of None \<Rightarrow> FundingInformation.amount f | Some v \<Rightarrow> v)"
    "FundingInformation.startDate (mergeFunding f u)
       = (case FundingUpdates.startDate u of
            None \<Rightarrow> FundingInformation.startDate f | Some v \<Rightarrow> v)"
    "FundingInformation.endDate (mergeFunding f u)
       = (case FundingUpdates.endDate u of
            None \<Rightarrow> FundingInformation.endDate f | Some v \<Rightarrow> Some v)"
    "FundingInformation.description (mergeFunding f u)
       = (case FundingUpdates.description u of
            None \<Rightarrow> FundingInformation.description f | Some v \<Rightarrow> Some v)"
    "FundingInformation.isActive (mergeFunding f u)
       = (case FundingUpdates.isActive u of
            None \<Rightarrow> FundingInformation.isActive f | Some v \<Rightarrow> v)"
    "FundingInformation.drawdownRate (mergeFunding f u)
       = (case FundingUpdates.drawdownRate u of
            None \<Rightarrow> FundingInformation.drawdownRate f | Some v \<Rightarrow> v)"
    "FundingInformation.autoDrawdown (mergeFunding f u)
       = (case FundingUpdates.autoDrawdown u of
            None \<Rightarrow> FundingInformation.autoDrawdown f | Some v \<Rightarrow> v)"
    "FundingInformation.renewalDate (mergeFunding f u)
       = (case FundingUpdates.renewalDate u of
            None \<Rightarrow> FundingInformation.renewalDate f | Some v \<Rightarrow> Some v)"
    "FundingRecord.id' (mergeFunding f u) = FundingRecord.id' f"
    "FundingRecord.residentId (mergeFunding f u) = FundingRecord.residentId f"
    "FundingRecord.currentBalance (mergeFunding f u) = FundingRecord.currentBalance f"
    "FundingRecord.contractStatus (mergeFunding f u) = FundingRecord.contractStatus f"
    by (simp_all add: mergeFunding_def supplied_def split: option.splits)
  show "\<exists>f' r' store'.
             PUT_funding validate updateFundingInResident store rid b
               = (FundingUpdated (Some f'), store')
             \<and> find (\<lambda>r. Resident.id' r = rid) store' = Some r'
             \<and> find (\<lambda>f. JStr (FundingRecord.id' f) = the (b ''fundingId''))
                  (fundingInformation r') = Some f'
             \<and> FundingInformation.type f'
                 = (case FundingUpdates.type u of None \<Rightarrow> FundingInformation.type f | Some v \<Rightarrow> v)
             \<and> FundingInformation.amount f'
                 = (case FundingUpdates.amount u of None \<Rightarrow> FundingInformation.amount f | Some v \<Rightarrow> v)
             \<and> FundingInformation.startDate f'
                 = (case FundingUpdates.startDate u of
                      None \<Rightarrow> FundingInformation.startDate f | Some v \<Rightarrow> v)
             \<and> FundingInformation.endDate f'
                 = (case FundingUpdates.endDate u of
                      None \<Rightarrow> FundingInformation.endDate f | Some v \<Rightarrow> Some v)
             \<and> FundingInformation.description f'
                 = (case FundingUpdates.description u of
                      None \<Rightarrow> FundingInformation.description f | Some v \<Rightarrow> Some v)
             \<and> FundingInformation.isActive f'
                 = (case FundingUpdates.isActive u of
                      None \<Rightarrow> FundingInformation.isActive f | Some v \<Rightarrow> v)
             \<and> FundingInformation.drawdownRate f'
                 = (case FundingUpdates.drawdownRate u of
                      None \<Rightarrow> FundingInformation.drawdownRate f | Some v \<Rightarrow> v)
             \<and> FundingInformation.autoDrawdown f'
                 = (case FundingUpdates.autoDrawdown u of
                      None \<Rightarrow> FundingInformation.autoDrawdown f | Some v \<Rightarrow> v)
             \<and> FundingInformation.renewalDate f'
                 = (case FundingUpdates.renewalDate u of
                      None \<Rightarrow> FundingInformation.renewalDate f | Some v \<Rightarrow> Some v)
             \<and> FundingRecord.id' f' = FundingRecord.id' f
             \<and> FundingRecord.residentId f' = FundingRecord.residentId f
             \<and> FundingRecord.currentBalance f' = FundingRecord.currentBalance f
             \<and> FundingRecord.contractStatus f' = FundingRecord.contractStatus f"
    apply (rule exI[of _ "mergeFunding f u"])
    apply (rule exI[of _ r'])
    apply (rule exI[of _ store'])
    apply (intro conjI)
    using put fr ff fields by simp_all
qed


lemma example_validate_invalid:
  "exampleValidate ((exampleUpdateBody (Num (- 5)))(''fundingId'' := None))
     = Inl [issue ''too_small'' [''amount''] (Some ''Funding amount must be positive'')]"
  by (simp add: exampleValidate_def exampleUpdateBody_def z_optional_def z_number_def check_def
      safeParse_def js_gt_def)

lemma example_validate_valid:
  "exampleValidate ((exampleUpdateBody (Num 2000))(''fundingId'' := None))
     = Inr (noUpdates\<lparr>FundingUpdates.amount := Some (Num 2000)\<rparr>)"
  by (simp add: exampleValidate_def exampleUpdateBody_def z_optional_def z_number_def check_def
      safeParse_def js_gt_def)

lemma example_resident:
  "find (\<lambda>r. Resident.id' r = ''r1'') exampleResidents
     = Some \<lparr> Resident.id' = ''r1'', fundingInformation = [exampleContract] \<rparr>"
  by (simp add: exampleResidents_def)

lemma example_resident_funding:
  "find (\<lambda>f. JStr (FundingRecord.id' f) = the (exampleUpdateBody n ''fundingId''))
     (fundingInformation \<lparr> Resident.id' = ''r1'', fundingInformation = [exampleContract] \<rparr>)
     = Some exampleContract"
  by (simp add: exampleUpdateBody_def exampleContract_def)

theorem funding_update_validated_witness:
  "truthy (exampleUpdateBody (Num (- 5)) ''fundingId'')
   \<and> (\<exists>issues. exampleValidate ((exampleUpdateBody (Num (- 5)))(''fundingId'' := None)) = Inl issues
         \<and> map path issues = [[''amount'']]
         \<and> PUT_funding exampleValidate updateFundingInResident exampleResidents ''r1''
              (exampleUpdateBody (Num (- 5)))
            = (InvalidFundingInformation issues, exampleResidents))
   \<and> (\<exists>f' store'.
         PUT_funding exampleValidate updateFundingInResident exampleResidents ''r1''
           (exampleUpdateBody (Num 2000))
         = (FundingUpdated (Some f'), store')
         \<and> FundingInformation.amount f' = Num 2000
         \<and> FundingInformation.startDate f' = FundingInformation.startDate exampleContract
         \<and> FundingInformation.type f' = FundingInformation.type exampleContract
         \<and> FundingRecord.currentBalance f' = Num 1000)"
proof -
  have t: "truthy (exampleUpdateBody n ''fundingId'')" for n
    by (simp add: exampleUpdateBody_def)
  note A = funding_update_validated[of "exampleUpdateBody (Num (- 5))" exampleValidate
      updateFundingInResident exampleResidents "''r1''" exampleResidents]
  note B = funding_update_validated[of "exampleUpdateBody (Num 2000)" exampleValidate
      updateFundingInResident exampleResidents "''r1''" exampleResidents]
  from A[THEN conjunct1, rule_format, OF conjI[OF t example_validate_invalid]]
  have 1: "PUT_funding exampleValidate updateFundingInResident exampleResidents ''r1''
              (exampleUpdateBody (Num (- 5)))
            = (InvalidFundingInformation
                 [issue ''too_small'' [''amount''] (Some ''Funding amount must be positive'')],
               exampleResidents)" .
  have p: "map path [issue ''too_small'' [''amount''] (Some ''Funding amount must be positive'')]
             = [[''amount'']]"
    by (simp add: issue_def)
  have hyp: "truthy (exampleUpdateBody (Num 2000) ''fundingId'')
      \<and> exampleValidate ((exampleUpdateBody (Num 2000))(''fundingId'' := None))
          = Inr (noUpdates\<lparr>FundingUpdates.amount := Some (Num 2000)\<rparr>)
      \<and> find (\<lambda>r. Resident.id' r = ''r1'') exampleResidents
          = Some \<lparr> Resident.id' = ''r1'', fundingInformation = [exampleContract] \<rparr>
      \<and> find (\<lambda>f. JStr (FundingRecord.id' f) = the (exampleUpdateBody (Num 2000) ''fundingId''))
            (fundingInformation \<lparr> Resident.id' = ''r1'', fundingInformation = [exampleContract] \<rparr>)
          = Some exampleContract"
    by (intro conjI t example_validate_valid example_resident example_resident_funding)
  have 2: "\<exists>f' store'.
         PUT_funding exampleValidate updateFundingInResident exampleResidents ''r1''
           (exampleUpdateBody (Num 2000))
         = (FundingUpdated (Some f'), store')
         \<and> FundingInformation.amount f' = Num 2000
         \<and> FundingInformation.startDate f' = FundingInformation.startDate exampleContract
         \<and> FundingInformation.type f' = FundingInformation.type exampleContract
         \<and> FundingRecord.currentBalance f' = Num 1000"
    using B[THEN conjunct2, rule_format, OF hyp]
    apply (elim exE conjE)
    subgoal for f' r' store'
      apply (rule exI[of _ f'], rule exI[of _ store'])
      apply (simp add: noUpdates_def exampleContract_def)
      done
    done
  have 3: "\<exists>issues. exampleValidate ((exampleUpdateBody (Num (- 5)))(''fundingId'' := None)) = Inl issues
         \<and> map path issues = [[''amount'']]
         \<and> PUT_funding exampleValidate updateFundingInResident exampleResidents ''r1''
              (exampleUpdateBody (Num (- 5)))
            = (InvalidFundingInformation issues, exampleResidents)"
    by (rule exI[of _ "[issue ''too_small'' [''amount''] (Some ''Funding amount must be positive'')]"])
       (intro conjI example_validate_invalid p 1)
  from t[of "Num (- 5)"] 3 2 show ?thesis
    by (intro conjI)
qed

end
